theory Spec2Isabelle
  imports Complex_Main
begin

section \<open>Data model\<close>

text \<open>
  The two modules \<^verbatim>\<open>s2cloudless.py\<close> and \<^verbatim>\<open>gee_functions.py\<close> are a client of
  the Earth Engine service. An image is a list of named bands over a pixel grid together
  with a property dictionary; a masked pixel has no value (\<open>None\<close>). The scene identifier
  \<^verbatim>\<open>system:index\<close>, the acquisition time \<^verbatim>\<open>system:time_start\<close> (POSIX milliseconds)
  and the footprint are present on every catalogue image and are kept as fields.
\<close>

type_synonym pixel = "int \<times> int"
type_synonym raster = "pixel \<Rightarrow> real option"
type_synonym band = "string \<times> raster"
type_synonym geometry = "pixel set"

datatype pvalue = PNull | PNum real | PStr string | PImage image
and image = Image (img_index: string) (img_time_start: int) (img_footprint: geometry)
                  (img_bands: "band list") (img_props: "(string \<times> pvalue) list")

definition band_names :: "image \<Rightarrow> string list" where
  "band_names v = map fst (img_bands v)"

definition with_bands :: "image \<Rightarrow> band list \<Rightarrow> image" where
  "with_bands v bs = Image (img_index v) (img_time_start v) (img_footprint v) bs (img_props v)"

text \<open>\<^verbatim>\<open>img.get(key)\<close>: a missing property reads as null.\<close>

definition get_prop :: "image \<Rightarrow> string \<Rightarrow> pvalue" where
  "get_prop v k =
     (if k = ''system:index'' then PStr (img_index v)
      else if k = ''system:time_start'' then PNum (of_int (img_time_start v))
      else (case map_of (img_props v) k of None \<Rightarrow> PNull | Some p \<Rightarrow> p))"

text \<open>\<^verbatim>\<open>img.set(key, value)\<close> on a user property: the new value replaces an old one.\<close>

definition set_prop :: "image \<Rightarrow> string \<Rightarrow> pvalue \<Rightarrow> image" where
  "set_prop v k p =
     Image (img_index v) (img_time_start v) (img_footprint v) (img_bands v)
           ((k, p) # filter (\<lambda>kv. fst kv \<noteq> k) (img_props v))"

section \<open>Band selectors and band naming of the service\<close>

text \<open>
  \<^verbatim>\<open>Image.select\<close> takes band indices and band names; a name is a regular expression
  that has to match the whole band name. The patterns of this repository
  (\<^verbatim>\<open>'probability'\<close>, \<^verbatim>\<open>'SCL'\<close>, \<^verbatim>\<open>'B8'\<close>, \<^verbatim>\<open>'clouds'\<close>, \<^verbatim>\<open>'shadows'\<close>, \<^verbatim>\<open>'distance'\<close>,
  \<^verbatim>\<open>'cloudmask'\<close>, \<^verbatim>\<open>'B.*'\<close>) use literal characters, the wildcard \<^verbatim>\<open>.\<close> and the
  postfix star only, which is what \<open>rmatch\<close> implements.
\<close>

fun rmatch :: "string \<Rightarrow> string \<Rightarrow> bool" where
  "rmatch [] s = (s = [])"
| "rmatch [c] s = (case s of [] \<Rightarrow> False | x # t \<Rightarrow> (c = CHR ''.'' \<or> c = x) \<and> t = [])"
| "rmatch (c # d # p) s =
     (if d = CHR ''*''
      then (rmatch p s \<or>
            (case s of [] \<Rightarrow> False | x # t \<Rightarrow> (c = CHR ''.'' \<or> c = x) \<and> rmatch (c # d # p) t))
      else (case s of [] \<Rightarrow> False | x # t \<Rightarrow> (c = CHR ''.'' \<or> c = x) \<and> rmatch (d # p) t))"

declare rmatch.simps(3) [simp del]

datatype selector = Name string | Index nat

definition apply_selector :: "band list \<Rightarrow> selector \<Rightarrow> band list option" where
  "apply_selector bs s =
     (case s of
        Name pat \<Rightarrow> (let m = filter (\<lambda>b. rmatch pat (fst b)) bs in if m = [] then None else Some m)
      | Index i \<Rightarrow> (if i < length bs then Some [bs ! i] else None))"

definition select_bands :: "band list \<Rightarrow> selector list \<Rightarrow> band list option" where
  "select_bands bs sels = map_option concat (those (map (apply_selector bs) sels))"

text \<open>
  \<^verbatim>\<open>Image.addBands\<close> with \<^verbatim>\<open>overwrite=False\<close> (the default, the only way the repository
  calls it): a new band whose name is taken gets a numeric suffix, \<^verbatim>\<open>foo\<close> becoming
  \<^verbatim>\<open>foo_1\<close> unless that exists, then \<^verbatim>\<open>foo_2\<close>, and so on. Among the first
  \<open>length names + 1\<close> suffixes one is free, so the search of \<open>fresh_name\<close> always finds a
  name (lemma \<open>fresh_name_notin\<close>).
\<close>

definition digit_char :: "nat \<Rightarrow> char" where
  "digit_char d = char_of (48 + d)"

fun show_nat :: "nat \<Rightarrow> string" where
  "show_nat n = (if n < 10 then [digit_char n] else show_nat (n div 10) @ [digit_char (n mod 10)])"

declare show_nat.simps [simp del]

definition suffixed :: "string \<Rightarrow> nat \<Rightarrow> string" where
  "suffixed n k = n @ ''_'' @ show_nat k"

definition fresh_name :: "string list \<Rightarrow> string \<Rightarrow> string" where
  "fresh_name names n =
     (if n \<in> set names
      then (case find (\<lambda>c. c \<notin> set names) (map (suffixed n) [1 ..< length names + 2]) of
              Some c \<Rightarrow> c | None \<Rightarrow> n)
      else n)"

definition add_band :: "band list \<Rightarrow> band \<Rightarrow> band list" where
  "add_band bs b = bs @ [(fresh_name (map fst bs) (fst b), snd b)]"

definition add_bands :: "band list \<Rightarrow> band list \<Rightarrow> band list" where
  "add_bands bs new = foldl add_band bs new"

text \<open>\<^verbatim>\<open>Image.rename\<close>: one new name for each band, otherwise the service rejects the call.\<close>

definition rename_bands :: "band list \<Rightarrow> string list \<Rightarrow> band list option" where
  "rename_bands bs ns = (if length ns = length bs then Some (zip ns (map snd bs)) else None)"

section \<open>Pixelwise operations of the service\<close>

datatype binop = Gt | Lt | Neq | Multiply | Add

definition of_bool_px :: "bool \<Rightarrow> real" where
  "of_bool_px b = (if b then 1 else 0)"

fun binop_px :: "binop \<Rightarrow> real \<Rightarrow> real \<Rightarrow> real" where
  "binop_px Gt a b = of_bool_px (a > b)"
| "binop_px Lt a b = of_bool_px (a < b)"
| "binop_px Neq a b = of_bool_px (a \<noteq> b)"
| "binop_px Multiply a b = a * b"
| "binop_px Add a b = a + b"

text \<open>A pixel of the result is masked where either operand is.\<close>

definition binop_raster :: "binop \<Rightarrow> raster \<Rightarrow> raster \<Rightarrow> raster" where
  "binop_raster f r1 r2 =
     (\<lambda>x. case r1 x of None \<Rightarrow> None
          | Some a \<Rightarrow> (case r2 x of None \<Rightarrow> None | Some b \<Rightarrow> Some (binop_px f a b)))"

text \<open>
  Band matching of a binary operation: bands pair up in order when both images have the
  same number of bands, a single band is used against every band of the other image,
  and the result is named after the longer input (the first one when equal).
\<close>

definition binop_bands :: "binop \<Rightarrow> band list \<Rightarrow> band list \<Rightarrow> band list option" where
  "binop_bands f bs1 bs2 =
     (if length bs1 = length bs2
      then Some (map (\<lambda>(b1, b2). (fst b1, binop_raster f (snd b1) (snd b2))) (zip bs1 bs2))
      else (case bs2 of
              [b2] \<Rightarrow> Some (map (\<lambda>b1. (fst b1, binop_raster f (snd b1) (snd b2))) bs1)
            | _ \<Rightarrow> (case bs1 of
                      [b1] \<Rightarrow> Some (map (\<lambda>b2. (fst b2, binop_raster f (snd b1) (snd b2))) bs2)
                    | _ \<Rightarrow> None)))"

definition not_raster :: "raster \<Rightarrow> raster" where
  "not_raster r = (\<lambda>x. case r x of None \<Rightarrow> None | Some a \<Rightarrow> Some (of_bool_px (a = 0)))"

text \<open>\<^verbatim>\<open>Image.mask()\<close>: 1 where the pixel has a value, 0 where it is masked.\<close>

definition mask_raster :: "raster \<Rightarrow> raster" where
  "mask_raster r = (\<lambda>x. case r x of None \<Rightarrow> Some 0 | Some a \<Rightarrow> Some 1)"

text \<open>
  \<^verbatim>\<open>Image.updateMask(mask)\<close>: a pixel keeps its value where the mask is valid and non-zero
  and is masked elsewhere; a pixel already masked stays masked.
\<close>

definition update_mask_raster :: "raster \<Rightarrow> raster \<Rightarrow> raster" where
  "update_mask_raster r m =
     (\<lambda>x. case m x of None \<Rightarrow> None | Some a \<Rightarrow> (if a = 0 then None else r x))"

definition update_mask_bands :: "band list \<Rightarrow> band list \<Rightarrow> band list option" where
  "update_mask_bands bs ms =
     (case ms of
        [m] \<Rightarrow> Some (map (\<lambda>b. (fst b, update_mask_raster (snd b) (snd m))) bs)
      | _ \<Rightarrow> (if length ms = length bs
              then Some (map (\<lambda>(b, m). (fst b, update_mask_raster (snd b) (snd m))) (zip bs ms))
              else None))"

section \<open>The computation graph and its evaluation by the service\<close>

text \<open>
  The client functions do not compute on pixels: each call on an \<^verbatim>\<open>ee.Image\<close> builds a
  node of a computation graph, which the service evaluates when a result is requested.
  \<open>image_expr\<close> is that graph, with one constructor for each client call the two modules
  make. A number passed where an image is expected (\<^verbatim>\<open>cld_prb.gt(40)\<close>) becomes a constant
  image; \<^verbatim>\<open>ee.Image([a, b])\<close> is \<open>Cat [a, b]\<close>.
\<close>

datatype num_expr =
    Num real
  | Get_number image_expr string
  | Subtract num_expr num_expr
and proj_expr =
    Projection image_expr
and image_expr =
    Asset image
  | Constant real
  | Get_image image_expr string
  | Select image_expr "selector list"
  | Rename image_expr "string list"
  | AddBands image_expr image_expr
  | Cat "image_expr list"
  | BinOp binop image_expr image_expr
  | Not_image image_expr
  | NormalizedDifference image_expr "string list"
  | DirectionalDistanceTransform image_expr num_expr real
  | Reproject image_expr proj_expr real
  | Mask image_expr
  | FocalMin image_expr real
  | FocalMax image_expr real
  | UpdateMask image_expr image_expr

text \<open>
  The neighbourhood operations, the directional distance transform, the normalised
  difference and resampling are the service's own; they stay uninterpreted, as fields of
  a \<open>backend\<close>. A neighbourhood measured in pixels depends on the projection the
  computation is requested in, which \<^verbatim>\<open>reproject\<close> fixes for everything below it: that
  requested projection (a CRS and a scale in metres) is the context \<open>ctx\<close>.
\<close>

type_synonym ctx = "(string \<times> real) option"

record backend =
  be_projection :: "image \<Rightarrow> string option"
  be_focal_min :: "ctx \<Rightarrow> real \<Rightarrow> raster \<Rightarrow> raster"
  be_focal_max :: "ctx \<Rightarrow> real \<Rightarrow> raster \<Rightarrow> raster"
  be_ddt :: "ctx \<Rightarrow> real \<Rightarrow> real \<Rightarrow> band list \<Rightarrow> band list"
  be_nd :: "raster \<Rightarrow> raster \<Rightarrow> raster"
  be_reproject :: "ctx \<Rightarrow> string \<times> real \<Rightarrow> raster \<Rightarrow> raster"

definition map_rasters :: "(raster \<Rightarrow> raster) \<Rightarrow> image \<Rightarrow> image" where
  "map_rasters f v = with_bands v (map (\<lambda>b. (fst b, f (snd b))) (img_bands v))"

definition constant_image :: "real \<Rightarrow> image" where
  "constant_image c = Image [] 0 UNIV [(''constant'', \<lambda>x. Some c)] []"

definition cat_images :: "image list \<Rightarrow> image option" where
  "cat_images vs =
     (case vs of [] \<Rightarrow> None
      | v # rest \<Rightarrow> Some (foldl (\<lambda>acc w. with_bands acc (add_bands (img_bands acc) (img_bands w))) v rest))"

text \<open>
  Evaluation returns \<open>None\<close> where the service rejects the graph: a selector that matches
  no band, a property that is not of the type asked for, a band count that does not fit.
  The result of an operation keeps the metadata of its first operand.
\<close>

fun eval_num :: "backend \<Rightarrow> ctx \<Rightarrow> num_expr \<Rightarrow> real option"
and eval_proj :: "backend \<Rightarrow> ctx \<Rightarrow> proj_expr \<Rightarrow> string option"
and eval :: "backend \<Rightarrow> ctx \<Rightarrow> image_expr \<Rightarrow> image option" where
  "eval_num B c (Num r) = Some r"
| "eval_num B c (Get_number e k) =
     (case eval B c e of None \<Rightarrow> None
      | Some v \<Rightarrow> (case get_prop v k of PNum r \<Rightarrow> Some r | _ \<Rightarrow> None))"
| "eval_num B c (Subtract a b) =
     (case eval_num B c a of None \<Rightarrow> None
      | Some x \<Rightarrow> (case eval_num B c b of None \<Rightarrow> None | Some y \<Rightarrow> Some (x - y)))"
| "eval_proj B c (Projection e) =
     (case eval B c e of None \<Rightarrow> None | Some v \<Rightarrow> be_projection B v)"
| "eval B c (Asset v) = Some v"
| "eval B c (Constant r) = Some (constant_image r)"
| "eval B c (Get_image e k) =
     (case eval B c e of None \<Rightarrow> None
      | Some v \<Rightarrow> (case get_prop v k of PImage w \<Rightarrow> Some w | _ \<Rightarrow> None))"
| "eval B c (Select e sels) =
     (case eval B c e of None \<Rightarrow> None
      | Some v \<Rightarrow> map_option (with_bands v) (select_bands (img_bands v) sels))"
| "eval B c (Rename e ns) =
     (case eval B c e of None \<Rightarrow> None
      | Some v \<Rightarrow> map_option (with_bands v) (rename_bands (img_bands v) ns))"
| "eval B c (AddBands e1 e2) =
     (case eval B c e1 of None \<Rightarrow> None
      | Some v1 \<Rightarrow> (case eval B c e2 of None \<Rightarrow> None
          | Some v2 \<Rightarrow> Some (with_bands v1 (add_bands (img_bands v1) (img_bands v2)))))"
| "eval B c (Cat es) =
     (case those (map (eval B c) es) of None \<Rightarrow> None | Some vs \<Rightarrow> cat_images vs)"
| "eval B c (BinOp f e1 e2) =
     (case eval B c e1 of None \<Rightarrow> None
      | Some v1 \<Rightarrow> (case eval B c e2 of None \<Rightarrow> None
          | Some v2 \<Rightarrow> map_option (with_bands v1) (binop_bands f (img_bands v1) (img_bands v2))))"
| "eval B c (Not_image e) = map_option (map_rasters not_raster) (eval B c e)"
| "eval B c (NormalizedDifference e ns) =
     (case eval B c e of None \<Rightarrow> None
      | Some v \<Rightarrow> (case select_bands (img_bands v) (map Name ns) of
            Some [b1, b2] \<Rightarrow> Some (with_bands v [(''nd'', be_nd B (snd b1) (snd b2))])
          | _ \<Rightarrow> None))"
| "eval B c (DirectionalDistanceTransform e a d) =
     (case eval B c e of None \<Rightarrow> None
      | Some v \<Rightarrow> (case eval_num B c a of None \<Rightarrow> None
          | Some angle \<Rightarrow> Some (with_bands v (be_ddt B c angle d (img_bands v)))))"
| "eval B c (Reproject e p s) =
     (case eval_proj B c p of None \<Rightarrow> None
      | Some crs \<Rightarrow> map_option (map_rasters (be_reproject B c (crs, s))) (eval B (Some (crs, s)) e))"
| "eval B c (Mask e) = map_option (map_rasters mask_raster) (eval B c e)"
| "eval B c (FocalMin e r) = map_option (map_rasters (be_focal_min B c r)) (eval B c e)"
| "eval B c (FocalMax e r) = map_option (map_rasters (be_focal_max B c r)) (eval B c e)"
| "eval B c (UpdateMask e m) =
     (case eval B c e of None \<Rightarrow> None
      | Some v \<Rightarrow> (case eval B c m of None \<Rightarrow> None
          | Some w \<Rightarrow> map_option (with_bands v) (update_mask_bands (img_bands v) (img_bands w))))"

section \<open>\<^verbatim>\<open>s2cloudless.py\<close>\<close>

definition CLOUD_FILTER :: real where "CLOUD_FILTER = 60"
definition CLD_PRB_THRESH :: real where "CLD_PRB_THRESH = 40"
definition NIR_DRK_THRESH :: real where "NIR_DRK_THRESH = 0.15"
definition CLD_PRJ_DIST :: real where "CLD_PRJ_DIST = 1"
definition BUFFER :: real where "BUFFER = 100"

text \<open>
  The products of these constants that the module passes to the service are exact in
  Python's floats: \<^verbatim>\<open>0.15*1e4\<close> is \<^verbatim>\<open>1500.0\<close>, \<^verbatim>\<open>100*2/20\<close> is \<^verbatim>\<open>10.0\<close> and \<^verbatim>\<open>1*10\<close> is
  \<^verbatim>\<open>10\<close>, the values the real arithmetic below gives.
\<close>

definition add_cloud_bands :: "image_expr \<Rightarrow> image_expr" where
  "add_cloud_bands img =
     (let cld_prb = Select (Get_image img ''s2cloudless'') [Name ''probability''];
          is_cloud = Rename (BinOp Gt cld_prb (Constant CLD_PRB_THRESH)) [''clouds'']
      in AddBands img (Cat [cld_prb, is_cloud]))"

definition add_shadow_bands :: "image_expr \<Rightarrow> bool \<Rightarrow> image_expr" where
  "add_shadow_bands img use_SCL =
     (let SR_BAND_SCALE = 10000;
          not_water = (if use_SCL
                       then BinOp Neq (Select img [Name ''SCL'']) (Constant 6)
                       else BinOp Lt (NormalizedDifference img [''B4'', ''B2'']) (Constant 0.2));
          dark_pixels = Rename (BinOp Multiply
                                  (BinOp Lt (Select img [Name ''B8''])
                                            (Constant (NIR_DRK_THRESH * SR_BAND_SCALE)))
                                  not_water) [''dark_pixels''];
          shadow_azimuth = Subtract (Num 90) (Get_number img ''MEAN_SOLAR_AZIMUTH_ANGLE'');
          cld_proj = Rename (Mask (Select
                        (Reproject (DirectionalDistanceTransform (Select img [Name ''clouds''])
                                      shadow_azimuth (CLD_PRJ_DIST * 10))
                                   (Projection (Select img [Index 0])) 100)
                        [Name ''distance''])) [''cloud_transform''];
          shadows = Rename (BinOp Multiply cld_proj dark_pixels) [''shadows'']
      in AddBands img (Cat [dark_pixels, cld_proj, shadows]))"

definition add_cld_shdw_mask :: "image_expr \<Rightarrow> bool \<Rightarrow> image_expr" where
  "add_cld_shdw_mask img use_SCL =
     (let img_cloud = add_cloud_bands img;
          img_cloud_shadow = add_shadow_bands img_cloud use_SCL;
          is_cld_shdw = BinOp Gt (BinOp Add (Select img_cloud_shadow [Name ''clouds''])
                                            (Select img_cloud_shadow [Name ''shadows'']))
                                 (Constant 0);
          is_cld_shdw' = Rename (Reproject (FocalMax (FocalMin is_cld_shdw 2) (BUFFER * 2 / 20))
                                           (Projection (Select img [Index 0])) 20)
                                [''cloudmask'']
      in AddBands img_cloud_shadow is_cld_shdw')"

definition apply_cld_shdw_mask :: "image_expr \<Rightarrow> image_expr" where
  "apply_cld_shdw_mask img =
     (let not_cld_shdw = Not_image (Select img [Name ''cloudmask''])
      in UpdateMask (Select img [Name ''B.*'']) not_cld_shdw)"

text \<open>
  \<^verbatim>\<open>get_s2_sr_cld_col\<close> works on collections. A collection is the list of its images in
  iteration order; \<open>catalog\<close> is the service's data store, from a collection id to its
  images. Dates are POSIX milliseconds (what \<^verbatim>\<open>ee.Date\<close> makes of the arguments);
  \<^verbatim>\<open>filterDate\<close> keeps the start and leaves out the end; \<^verbatim>\<open>filterBounds\<close> keeps the images
  whose footprint meets the geometry.
\<close>

definition filterDate :: "int \<Rightarrow> int \<Rightarrow> image list \<Rightarrow> image list" where
  "filterDate start_date end_date coll =
     filter (\<lambda>v. start_date \<le> img_time_start v \<and> img_time_start v < end_date) coll"

definition filterBounds :: "geometry \<Rightarrow> image list \<Rightarrow> image list" where
  "filterBounds bounds coll = filter (\<lambda>v. img_footprint v \<inter> bounds \<noteq> {}) coll"

datatype ee_filter = Filter_lte string real

fun filter_holds :: "ee_filter \<Rightarrow> image \<Rightarrow> bool" where
  "filter_holds (Filter_lte k r) v = (case get_prop v k of PNum x \<Rightarrow> x \<le> r | _ \<Rightarrow> False)"

definition filter_collection :: "ee_filter \<Rightarrow> image list \<Rightarrow> image list" where
  "filter_collection f coll = filter (filter_holds f) coll"

datatype join_condition = Filter_equals string string

fun condition_holds :: "join_condition \<Rightarrow> image \<Rightarrow> image \<Rightarrow> bool" where
  "condition_holds (Filter_equals leftField rightField) p s =
     (get_prop p leftField = get_prop s rightField \<and> get_prop p leftField \<noteq> PNull)"

text \<open>
  \<^verbatim>\<open>ee.Join.saveFirst(matchKey)\<close> with its defaults (no ordering, \<^verbatim>\<open>outer=False\<close>): each
  primary element is paired with the first secondary element that satisfies the
  condition, saved under \<open>matchKey\<close>; a primary element without a match is left out.
\<close>

datatype ee_join = Join_saveFirst string

fun join_apply :: "ee_join \<Rightarrow> image list \<Rightarrow> image list \<Rightarrow> join_condition \<Rightarrow> image list" where
  "join_apply (Join_saveFirst matchKey) primary secondary condition =
     List.map_filter
       (\<lambda>p. case find (condition_holds condition p) secondary of
               None \<Rightarrow> None
             | Some s \<Rightarrow> Some (set_prop p matchKey (PImage s)))
       primary"

definition get_collection :: "(string \<Rightarrow> image list) \<Rightarrow> geometry \<Rightarrow> int \<Rightarrow> int \<Rightarrow> string \<Rightarrow> image list" where
  "get_collection catalog bounds start_date end_date coll =
     filterBounds bounds (filterDate start_date end_date (catalog coll))"

definition get_s2_sr_cld_col :: "(string \<Rightarrow> image list) \<Rightarrow> geometry \<Rightarrow> int \<Rightarrow> int \<Rightarrow> image list" where
  "get_s2_sr_cld_col catalog bounds start_date end_date =
     (let refl = filter_collection (Filter_lte ''CLOUDY_PIXEL_PERCENTAGE'' CLOUD_FILTER)
                   (get_collection catalog bounds start_date end_date ''COPERNICUS/S2'');
          clouds = get_collection catalog bounds start_date end_date
                     ''COPERNICUS/S2_CLOUD_PROBABILITY''
      in join_apply (Join_saveFirst ''s2cloudless'') refl clouds
           (Filter_equals ''system:index'' ''system:index''))"

section \<open>\<^verbatim>\<open>gee_functions.py\<close>\<close>

definition CRS :: string where "CRS = ''epsg:3413''"

datatype feature = Feature (ft_geometry: geometry) (ft_props: "(string \<times> pvalue) list")

definition feature_get :: "feature \<Rightarrow> string \<Rightarrow> pvalue" where
  "feature_get f k = (case map_of (ft_props f) k of None \<Rightarrow> PNull | Some p \<Rightarrow> p)"

definition feature_set :: "feature \<Rightarrow> string \<Rightarrow> pvalue \<Rightarrow> feature" where
  "feature_set f k p = Feature (ft_geometry f) ((k, p) # filter (\<lambda>kv. fst kv \<noteq> k) (ft_props f))"

text \<open>
  \<^verbatim>\<open>create_reduce_regions\<close> returns the closure \<^verbatim>\<open>reduce_regions\<close>. The region reduction
  itself, \<^verbatim>\<open>img.reduceRegions\<close>, is the service's and stays a parameter
  (\<open>reduceRegions\<close>); \<^verbatim>\<open>img.date().millis()\<close> is the image's \<^verbatim>\<open>system:time_start\<close>.
  \<open>add_props = None\<close> is Python's \<^verbatim>\<open>None\<close>. The defaults of the source are
  \<^verbatim>\<open>add_date=True\<close>, \<^verbatim>\<open>add_props=None\<close>, \<^verbatim>\<open>crs=CRS\<close>, \<^verbatim>\<open>scale=20\<close>.
\<close>

definition set_props :: "image \<Rightarrow> string list \<Rightarrow> feature \<Rightarrow> feature" where
  "set_props img add_props f = foldl (\<lambda>f kw. feature_set f kw (get_prop img kw)) f add_props"

definition set_date :: "image \<Rightarrow> feature \<Rightarrow> feature" where
  "set_date img f = feature_set f ''millis'' (PNum (of_int (img_time_start img)))"

definition create_reduce_regions ::
  "(image \<Rightarrow> feature list \<Rightarrow> 'r \<Rightarrow> string \<Rightarrow> real \<Rightarrow> feature list) \<Rightarrow>
   feature list \<Rightarrow> 'r \<Rightarrow> bool \<Rightarrow> string list option \<Rightarrow> string \<Rightarrow> real \<Rightarrow> image \<Rightarrow> feature list" where
  "create_reduce_regions reduceRegions collection reducer add_date add_props crs scale =
     (\<lambda>img.
        let d = reduceRegions img collection reducer crs scale;
            d = (case add_props of None \<Rightarrow> d | Some kws \<Rightarrow> map (set_props img kws) d)
        in if add_date then map (set_date img) d else d)"

text \<open>
  The remaining functions talk to the service: a \<^verbatim>\<open>getInfo()\<close> is a blocking round trip.
  The state threaded through them is the log of round trips made so far; the answers of
  the service are the fields of \<open>service\<close>. A raised exception is a left value.
  \<open>py_value\<close> is what a caller can pass for \<^verbatim>\<open>selectors\<close>; \<open>py_arg\<close> is a positional
  argument of a call, here a Python function given by its name.
\<close>

datatype py_error = NotImplementedError | AssertionError | EEException | ValueError | TypeError

datatype py_value = PyNone | PyList "string list" | PyTuple "string list" | PyStr string

datatype py_arg = Py_function string

datatype request = Req_propertyNames | Req_reduceColumns "string list" | Req_property string

record service =
  svc_property_names :: "feature list \<Rightarrow> py_error + string list"
  svc_reduce_columns :: "feature list \<Rightarrow> nat \<Rightarrow> string list \<Rightarrow> py_error + pvalue list list"

text \<open>
  \<^verbatim>\<open>ComputedObject.getInfo(self)\<close> of the Python client has no parameter besides \<^verbatim>\<open>self\<close>
  (the callback parameter belongs to the JavaScript client). Python rejects a call that
  passes a further positional argument with \<^verbatim>\<open>TypeError\<close> before the body of the method
  runs, so nothing is sent. \<open>args\<close> are the positional arguments of the call, \<open>req\<close> the
  request and \<open>answer\<close> what the service answers to it.
\<close>

definition getInfo ::
  "py_arg list \<Rightarrow> request \<Rightarrow> py_error + 'v \<Rightarrow> request list \<Rightarrow> (py_error + 'v) \<times> request list" where
  "getInfo args req answer trips =
     (case args of [] \<Rightarrow> (answer, trips @ [req]) | _ \<Rightarrow> (Inl TypeError, trips))"

text \<open>
  \<^verbatim>\<open>get_date\<close>. The double product \<^verbatim>\<open>time_ms * 1e-3\<close> and \<^verbatim>\<open>datetime.fromtimestamp\<close> are the
  platform's and stay parameters (\<open>millis_to_seconds\<close>, \<open>fromtimestamp\<close>); a value that is
  not a number cannot be multiplied (\<^verbatim>\<open>TypeError\<close>). The parameter \<^verbatim>\<open>attr\<close> is not read:
  the property name is written out in the body. \<^verbatim>\<open>cb\<close> is the local function that the
  body passes to \<^verbatim>\<open>getInfo\<close>.
\<close>

record 'dt platform =
  millis_to_seconds :: "real \<Rightarrow> real"
  fromtimestamp :: "real \<Rightarrow> py_error + 'dt"

definition get_date ::
  "'dt platform \<Rightarrow> image \<Rightarrow> string \<Rightarrow> request list \<Rightarrow> (py_error + 'dt) \<times> request list" where
  "get_date pf im attr trips =
     (let cb = Py_function ''cb''
      in case getInfo [cb] (Req_property ''system:time_start'')
                (Inr (get_prop im ''system:time_start'')) trips of
           (Inl e, trips') \<Rightarrow> (Inl e, trips')
         | (Inr time_ms, trips') \<Rightarrow>
             (case time_ms of
                PNum t \<Rightarrow> (fromtimestamp pf (millis_to_seconds pf t), trips')
              | _ \<Rightarrow> (Inl TypeError, trips')))"

text \<open>\<^verbatim>\<open>raise NotImplementedError\<close> is the first statement; the rest of the body is dead.\<close>

definition fc_to_dict ::
  "feature list \<Rightarrow> request list \<Rightarrow> (py_error + (string \<times> pvalue list) list) \<times> request list" where
  "fc_to_dict fc trips = (Inl NotImplementedError, trips)"

definition create_df ::
  "feature list \<Rightarrow> request list \<Rightarrow> (py_error + 'df) \<times> request list" where
  "create_df dictobj trips = (Inl NotImplementedError, trips)"

text \<open>
  pandas is a library of its own; what \<^verbatim>\<open>fc_to_df\<close> asks of it stays a parameter:
  \<open>pd_DataFrame\<close> is \<^verbatim>\<open>pd.DataFrame(as_list, columns=selectors)\<close>, \<open>pd_columns\<close> is
  \<^verbatim>\<open>df.columns\<close>, and \<open>pd_timestamp_index\<close> is the pair of statements
  \<^verbatim>\<open>df['timestamp'] = pd.to_datetime(df['millis'], unit='ms')\<close> and
  \<^verbatim>\<open>df.index = df.timestamp\<close>. Each can raise.
\<close>

record 'df pandas =
  pd_DataFrame :: "pvalue list list \<Rightarrow> string list \<Rightarrow> py_error + 'df"
  pd_columns :: "'df \<Rightarrow> string list"
  pd_timestamp_index :: "'df \<Rightarrow> py_error + 'df"

text \<open>The body of \<^verbatim>\<open>fc_to_df\<close> from the \<^verbatim>\<open>reduceColumns\<close> round trip on, \<open>selectors\<close> a list.\<close>

definition fc_to_df_list ::
  "'df pandas \<Rightarrow> service \<Rightarrow> feature list \<Rightarrow> string list \<Rightarrow> request list \<Rightarrow>
   (py_error + 'df) \<times> request list" where
  "fc_to_df_list pd svc fc selectors trips =
     (let selectors_n = length selectors
      in case getInfo [] (Req_reduceColumns selectors)
                (svc_reduce_columns svc fc selectors_n selectors) trips of
           (Inl e, trips') \<Rightarrow> (Inl e, trips')
         | (Inr as_list, trips') \<Rightarrow>
             (case pd_DataFrame pd as_list selectors of
                Inl e \<Rightarrow> (Inl e, trips')
              | Inr df \<Rightarrow>
                  (if ''millis'' \<in> set (pd_columns pd df)
                   then (pd_timestamp_index pd df, trips')
                   else (Inr df, trips'))))"

text \<open>
  \<^verbatim>\<open>fc_to_df\<close>: with \<^verbatim>\<open>selectors=None\<close> a first round trip fetches the property names of
  the first feature; anything that is neither \<^verbatim>\<open>None\<close> nor a list fails the \<^verbatim>\<open>assert\<close>
  (Python run without \<^verbatim>\<open>-O\<close>, which would strip the statement).
\<close>

definition fc_to_df ::
  "'df pandas \<Rightarrow> service \<Rightarrow> feature list \<Rightarrow> py_value \<Rightarrow> request list \<Rightarrow>
   (py_error + 'df) \<times> request list" where
  "fc_to_df pd svc fc selectors trips =
     (case selectors of
        PyNone \<Rightarrow>
          (case getInfo [] Req_propertyNames (svc_property_names svc fc) trips of
             (Inl e, trips') \<Rightarrow> (Inl e, trips')
           | (Inr names, trips') \<Rightarrow> fc_to_df_list pd svc fc names trips')
      | PyList names \<Rightarrow> fc_to_df_list pd svc fc names trips
      | _ \<Rightarrow> (Inl AssertionError, trips))"

section \<open>Vocabulary of the properties\<close>

text \<open>
  \<open>grows v out\<close>: the image \<open>out\<close> has every band of \<open>v\<close>, unchanged and in place,
  followed by further bands, and its set of band names is a strict superset.
\<close>

definition grows :: "image \<Rightarrow> image \<Rightarrow> bool" where
  "grows v out \<longleftrightarrow>
     (\<exists>ext. img_bands out = img_bands v @ ext) \<and> set (band_names v) \<subset> set (band_names out)"

text \<open>
  \<open>attach_first secondary p\<close>: the primary image \<open>p\<close> with the first image of \<open>secondary\<close>
  that has its scene identifier saved as \<^verbatim>\<open>s2cloudless\<close>, if there is one.
\<close>

definition attach_first :: "image list \<Rightarrow> image \<Rightarrow> image option" where
  "attach_first secondary p =
     map_option (\<lambda>m. set_prop p ''s2cloudless'' (PImage m))
       (find (\<lambda>m. img_index m = img_index p) secondary)"

section \<open>Example data\<close>

text \<open>
  A service that ignores neighbourhoods: the focal operations and resampling leave a
  raster as it is, and the distance transform reaches the source pixels only.
\<close>

definition example_backend :: backend where
  "example_backend =
     \<lparr> be_projection = (\<lambda>v. Some ''EPSG:32622''),
       be_focal_min = (\<lambda>c r x. x),
       be_focal_max = (\<lambda>c r x. x),
       be_ddt = (\<lambda>c a d bs. [(''distance'',
                   (\<lambda>x. case bs of [] \<Rightarrow> None
                        | b # _ \<Rightarrow> (case snd b x of None \<Rightarrow> None
                                     | Some q \<Rightarrow> if q = 0 then None else Some 0)))]),
       be_nd = (\<lambda>a b x. case a x of None \<Rightarrow> None
                  | Some p \<Rightarrow> (case b x of None \<Rightarrow> None
                      | Some q \<Rightarrow> if p + q = 0 then None else Some ((p - q) / (p + q)))),
       be_reproject = (\<lambda>c p x. x) \<rparr>"

definition example_probability :: raster where
  "example_probability = (\<lambda>x. if x = (0, 0) then Some 50 else if x = (1, 0) then Some 40 else None)"

definition example_cloud_image :: image where
  "example_cloud_image =
     Image ''x1'' 1000 {(0, 0), (1, 0)} [(''probability'', example_probability)] []"

definition example_bands :: "band list" where
  "example_bands =
     [(''B2'', \<lambda>x. Some 800), (''B4'', \<lambda>x. Some 700), (''B8'', \<lambda>x. Some 1000),
      (''SCL'', \<lambda>x. Some 4)]"

definition example_props :: "(string \<times> pvalue) list" where
  "example_props = [(''CLOUDY_PIXEL_PERCENTAGE'', PNum 10), (''MEAN_SOLAR_AZIMUTH_ANGLE'', PNum 160)]"

definition example_x1 :: image where
  "example_x1 = Image ''x1'' 1000 {(0, 0), (1, 0)} example_bands example_props"

definition example_x2 :: image where
  "example_x2 = Image ''x2'' 2000 {(0, 0), (1, 0)} example_bands example_props"

definition example_catalog :: "string \<Rightarrow> image list" where
  "example_catalog coll =
     (if coll = ''COPERNICUS/S2'' then [example_x1, example_x2]
      else if coll = ''COPERNICUS/S2_CLOUD_PROBABILITY'' then [example_cloud_image]
      else [])"

definition example_scene :: image where
  "example_scene = set_prop example_x1 ''s2cloudless'' (PImage example_cloud_image)"

definition example_clouds :: raster where
  "example_clouds = (\<lambda>x. if x = (0, 0) then Some 1 else Some 0)"

definition example_cloud_scene :: image where
  "example_cloud_scene =
     Image ''x1'' 1000 {(0, 0), (1, 0)} (example_bands @ [(''clouds'', example_clouds)]) example_props"

definition example_cloudmask :: raster where
  "example_cloudmask = (\<lambda>x. if x = (0, 0) then Some 1 else if x = (1, 0) then Some 0 else None)"

definition example_masked_scene :: image where
  "example_masked_scene =
     Image ''x1'' 1000 {(0, 0), (1, 0)}
       [(''B2'', \<lambda>x. Some 800), (''B8'', \<lambda>x. Some 1000), (''cloudmask'', example_cloudmask)] []"

definition example_regions :: "feature list" where
  "example_regions = [Feature {(0, 0)} [(''name'', PStr ''north'')],
                      Feature {(1, 0)} [(''name'', PStr ''south'')]]"

definition example_reduceRegions :: "image \<Rightarrow> feature list \<Rightarrow> string \<Rightarrow> string \<Rightarrow> real \<Rightarrow> feature list" where
  "example_reduceRegions img collection reducer crs scale =
     map (\<lambda>f. feature_set f reducer (PNum 0)) collection"

definition example_service :: service where
  "example_service =
     \<lparr> svc_property_names = (\<lambda>fc. case fc of [] \<Rightarrow> Inl EEException
                                   | f # _ \<Rightarrow> Inr (map fst (ft_props f))),
       svc_reduce_columns = (\<lambda>fc n sels. Inr (map (\<lambda>f. map (feature_get f) sels) fc)) \<rparr>"

text \<open>A table as its columns and rows, and a date-time as its POSIX seconds.\<close>

definition example_pandas :: "(string list \<times> pvalue list list) pandas" where
  "example_pandas =
     \<lparr> pd_DataFrame = (\<lambda>as_list columns. Inr (columns, as_list)),
       pd_columns = fst,
       pd_timestamp_index = (\<lambda>df. Inr (fst df @ [''timestamp''], snd df)) \<rparr>"

definition example_platform :: "real platform" where
  "example_platform = \<lparr> millis_to_seconds = (\<lambda>t. t / 1000), fromtimestamp = Inr \<rparr>"

section \<open>Band patterns\<close>

lemma rmatch_dotstar: "rmatch ''.*'' s"
proof (induction s)
  case Nil
  show ?case by (subst rmatch.simps(3)) simp
next
  case (Cons x t)
  then show ?case by (subst rmatch.simps(3)) simp
qed

lemma rmatch_B: "rmatch ''B.*'' s = (\<exists>t. s = CHR ''B'' # t)"
proof (cases s)
  case Nil
  then show ?thesis by (subst rmatch.simps(3)) simp
next
  case (Cons x t)
  then show ?thesis by (subst rmatch.simps(3)) (auto simp: rmatch_dotstar)
qed

lemma show_nat_nonempty: "show_nat n \<noteq> []"
  by (subst show_nat.simps) simp

lemma rmatch_literal:
  "CHR ''*'' \<notin> set p \<Longrightarrow> CHR ''.'' \<notin> set p \<Longrightarrow> rmatch p s = (s = p)"
proof (induction p arbitrary: s)
  case Nil
  then show ?case by simp
next
  case (Cons c p)
  show ?case
  proof (cases p)
    case Nil
    with Cons.prems show ?thesis by (cases s) auto
  next
    case (Cons d q)
    with Cons.prems Cons.IH show ?thesis by (cases s) (auto simp: rmatch.simps(3))
  qed
qed

section \<open>Band names stay apart when bands are added\<close>

lemma digit_char_inj: "a < 10 \<Longrightarrow> b < 10 \<Longrightarrow> digit_char a = digit_char b \<Longrightarrow> a = b"
  unfolding digit_char_def
  by (simp add: char_of_eq_iff take_bit_nat_eq_self)

lemma show_nat_small: "n < 10 \<Longrightarrow> show_nat n = [digit_char n]"
  by (subst show_nat.simps) simp

lemma show_nat_large:
  "\<not> n < 10 \<Longrightarrow> show_nat n = show_nat (n div 10) @ [digit_char (n mod 10)]"
  by (subst show_nat.simps) simp

lemma show_nat_inj: "show_nat a = show_nat b \<Longrightarrow> a = b"
proof (induction a arbitrary: b rule: show_nat.induct)
  case (1 n)
  show ?case
  proof (cases "n < 10")
    case small_n: True
    show ?thesis
    proof (cases "b < 10")
      case True
      with small_n "1.prems" show ?thesis
        by (simp add: show_nat_small digit_char_inj)
    next
      case False
      with small_n "1.prems" show_nat_nonempty [of "b div 10"] show ?thesis
        by (auto simp: show_nat_small show_nat_large)
    qed
  next
    case large_n: False
    show ?thesis
    proof (cases "b < 10")
      case True
      with large_n "1.prems" show_nat_nonempty [of "n div 10"] show ?thesis
        by (auto simp: show_nat_small show_nat_large)
    next
      case False
      with large_n "1.prems" have eq: "show_nat (n div 10) = show_nat (b div 10)"
        and d: "digit_char (n mod 10) = digit_char (b mod 10)"
        by (simp_all add: show_nat_large)
      from "1.IH" [OF large_n eq] have q: "n div 10 = b div 10" .
      from d have r: "n mod 10 = b mod 10"
        by (intro digit_char_inj) simp_all
      from q r show ?thesis
        by (metis div_mult_mod_eq)
    qed
  qed
qed

lemma suffixed_inj: "inj (suffixed n)"
  by (rule injI) (simp add: suffixed_def show_nat_inj)

lemma find_SomeD: "find P cs = Some c \<Longrightarrow> c \<in> set cs \<and> P c"
  by (induction cs) (auto split: if_splits)

lemma find_NoneD: "find P cs = None \<Longrightarrow> \<forall>c \<in> set cs. \<not> P c"
  by (induction cs) (auto split: if_splits)

lemma fresh_candidate_exists:
  "\<exists>c \<in> set (map (suffixed n) [1 ..< length names + 2]). c \<notin> set names"
proof (rule ccontr)
  let ?cs = "map (suffixed n) [1 ..< length names + 2]"
  assume "\<not> (\<exists>c \<in> set ?cs. c \<notin> set names)"
  then have sub: "set ?cs \<subseteq> set names" by blast
  have "inj_on (suffixed n) (set [1 ..< length names + 2])"
    by (rule inj_on_subset [OF suffixed_inj]) simp
  then have "distinct ?cs"
    by (simp only: distinct_map distinct_upt simp_thms)
  then have "card (set ?cs) = length ?cs"
    by (rule distinct_card)
  then have "card (set ?cs) = length names + 1"
    by (simp only: length_map length_upt)
  moreover have "card (set ?cs) \<le> card (set names)"
    using sub by (simp add: card_mono)
  moreover have "card (set names) \<le> length names"
    by (rule card_length)
  ultimately show False by simp
qed

lemma fresh_name_notin: "fresh_name names n \<notin> set names"
proof (cases "n \<in> set names")
  case False
  then show ?thesis by (simp add: fresh_name_def)
next
  case True
  let ?cs = "map (suffixed n) [1 ..< length names + 2]"
  from fresh_candidate_exists [of n names]
  obtain c where "find (\<lambda>c. c \<notin> set names) ?cs = Some c"
    by (cases "find (\<lambda>c. c \<notin> set names) ?cs") (blast dest: find_NoneD)+
  moreover from this have "c \<notin> set names"
    by (blast dest: find_SomeD)
  ultimately show ?thesis using True by (simp add: fresh_name_def)
qed

lemma fresh_name_unused: "n \<notin> set names \<Longrightarrow> fresh_name names n = n"
  by (simp add: fresh_name_def)

lemma fresh_name_cases: "fresh_name names n = n \<or> (\<exists>k. fresh_name names n = suffixed n k)"
proof (cases "find (\<lambda>c. c \<notin> set names) (map (suffixed n) [1 ..< length names + 2])")
  case None
  then show ?thesis by (simp add: fresh_name_def)
next
  case (Some c)
  then have "c \<in> set (map (suffixed n) [1 ..< length names + 2])"
    by (blast dest: find_SomeD)
  then have "c \<in> suffixed n ` set [1 ..< length names + 2]"
    by (simp only: set_map)
  then obtain k where "c = suffixed n k" by blast
  with Some show ?thesis by (auto simp: fresh_name_def)
qed

lemma add_bands_Nil [simp]: "add_bands bs [] = bs"
  by (simp add: add_bands_def)

lemma add_bands_Cons: "add_bands bs (b # new) = add_bands (add_band bs b) new"
  by (simp add: add_bands_def)

lemma add_bands_extends:
  "\<exists>ext. add_bands bs new = bs @ ext \<and> map snd ext = map snd new
         \<and> fst ` set ext \<inter> fst ` set bs = {}"
proof (induction new arbitrary: bs)
  case Nil
  show ?case by simp
next
  case (Cons b new)
  let ?b' = "(fresh_name (map fst bs) (fst b), snd b)"
  from Cons.IH [of "add_band bs b"]
  obtain ext where e: "add_bands (add_band bs b) new = add_band bs b @ ext"
    "map snd ext = map snd new" "fst ` set ext \<inter> fst ` set (add_band bs b) = {}"
    by blast
  have fresh: "fst ?b' \<notin> fst ` set bs"
    using fresh_name_notin [of "map fst bs" "fst b"] by simp
  have "add_bands bs (b # new) = bs @ (?b' # ext)"
    using e(1) by (simp add: add_bands_Cons add_band_def)
  moreover have "map snd (?b' # ext) = map snd (b # new)"
    using e(2) by simp
  moreover have "fst ` set (?b' # ext) \<inter> fst ` set bs = {}"
    using e(3) fresh by (auto simp: add_band_def)
  ultimately show ?case by blast
qed

section \<open>Cloud band deriver\<close>

lemma select_literal:
  assumes "CHR ''*'' \<notin> set n" "CHR ''.'' \<notin> set n"
  shows "select_bands bs [Name n] =
     (if filter (\<lambda>b. fst b = n) bs = [] then None else Some (filter (\<lambda>b. fst b = n) bs))"
  using assms by (simp add: select_bands_def apply_selector_def rmatch_literal Let_def)

lemma eval_cld_prb:
  assumes "eval B c img = Some v"
      and "get_prop v ''s2cloudless'' = PImage cp"
      and "filter (\<lambda>b. fst b = ''probability'') (img_bands cp) = [(''probability'', prob)]"
  shows "eval B c (Select (Get_image img ''s2cloudless'') [Name ''probability''])
           = Some (with_bands cp [(''probability'', prob)])"
  using assms by (simp add: select_literal)

lemma eval_add_cloud_bands:
  assumes "eval B c img = Some v"
      and "get_prop v ''s2cloudless'' = PImage cp"
      and "filter (\<lambda>b. fst b = ''probability'') (img_bands cp) = [(''probability'', prob)]"
  shows "eval B c (add_cloud_bands img) =
           Some (with_bands v (add_bands (img_bands v)
             [(''probability'', prob),
              (''clouds'', binop_raster Gt prob (\<lambda>x. Some CLD_PRB_THRESH))]))"
  using assms(1) eval_cld_prb [OF assms]
  by (simp add: add_cloud_bands_def Let_def with_bands_def constant_image_def binop_bands_def
      rename_bands_def cat_images_def add_bands_def add_band_def fresh_name_def)

lemma suffixed_probability_neq_clouds: "suffixed ''probability'' k \<noteq> ''clouds''"
  by (simp add: suffixed_def)

lemma add_bands_clouds:
  assumes "''clouds'' \<notin> fst ` set bs"
  shows "map_of (add_bands bs [(''probability'', p), (''clouds'', r)]) ''clouds'' = Some r"
proof -
  let ?n1 = "fresh_name (map fst bs) ''probability''"
  have n1: "?n1 \<noteq> ''clouds''"
    using fresh_name_cases [of "map fst bs" "''probability''"] suffixed_probability_neq_clouds
    by auto
  have "''clouds'' \<notin> set (map fst (bs @ [(?n1, p)]))"
    using assms n1 by auto
  then have "fresh_name (map fst (bs @ [(?n1, p)])) ''clouds'' = ''clouds''"
    by (rule fresh_name_unused)
  then have "add_bands bs [(''probability'', p), (''clouds'', r)]
               = bs @ [(?n1, p), (''clouds'', r)]"
    by (simp add: add_bands_def add_band_def)
  moreover have "map_of bs ''clouds'' = None"
    using assms by (simp add: map_of_eq_None_iff)
  ultimately show ?thesis using n1 by (simp add: map_add_def)
qed

text \<open>
  Claim C3. Let the input image evaluate to \<open>v\<close>, let the image attached to it as
  \<^verbatim>\<open>s2cloudless\<close> have the band \<^verbatim>\<open>probability\<close> with raster \<open>prob\<close>, and let \<open>v\<close> have no
  band called \<^verbatim>\<open>clouds\<close> yet. Then \<^verbatim>\<open>add_cloud_bands\<close> evaluates, and its \<^verbatim>\<open>clouds\<close> band
  is 1 at a pixel exactly where the probability is strictly greater than
  \<open>CLD_PRB_THRESH = 40\<close> and 0 where it is not; a probability of exactly 40 gives 0, and a
  masked probability pixel stays masked.
\<close>

theorem add_cloud_bands_threshold:
  assumes "eval B c img = Some v"
      and "get_prop v ''s2cloudless'' = PImage cp"
      and "filter (\<lambda>b. fst b = ''probability'') (img_bands cp) = [(''probability'', prob)]"
      and "''clouds'' \<notin> set (band_names v)"
  shows "\<exists>out clouds.
           eval B c (add_cloud_bands img) = Some out \<and>
           map_of (img_bands out) ''clouds'' = Some clouds \<and>
           CLD_PRB_THRESH = 40 \<and>
           (\<forall>x p. prob x = Some p \<longrightarrow>
              (clouds x = Some 1 \<longleftrightarrow> p > CLD_PRB_THRESH) \<and>
              (clouds x = Some 0 \<longleftrightarrow> \<not> p > CLD_PRB_THRESH)) \<and>
           (\<forall>x. prob x = Some 40 \<longrightarrow> clouds x = Some 0) \<and>
           (\<forall>x. prob x = None \<longrightarrow> clouds x = None)"
proof -
  let ?r = "binop_raster Gt prob (\<lambda>x. Some CLD_PRB_THRESH)"
  let ?out = "with_bands v (add_bands (img_bands v) [(''probability'', prob), (''clouds'', ?r)])"
  have ev: "eval B c (add_cloud_bands img) = Some ?out"
    by (rule eval_add_cloud_bands [OF assms(1-3)])
  have "''clouds'' \<notin> fst ` set (img_bands v)"
    using assms(4) by (simp add: band_names_def)
  then have look: "map_of (img_bands ?out) ''clouds'' = Some ?r"
    by (simp add: with_bands_def add_bands_clouds)
  have px: "\<And>x p. prob x = Some p \<Longrightarrow> ?r x = Some (if p > CLD_PRB_THRESH then 1 else 0)"
    by (simp add: binop_raster_def of_bool_px_def)
  have masked: "\<And>x. prob x = None \<Longrightarrow> ?r x = None"
    by (simp add: binop_raster_def)
  have thr: "CLD_PRB_THRESH = 40" by (simp add: CLD_PRB_THRESH_def)
  show ?thesis
    using ev look thr px masked by (intro exI [of _ ?out] exI [of _ ?r]) auto
qed

theorem add_cloud_bands_threshold_witness:
  "eval example_backend None (Asset example_scene) = Some example_scene \<and>
   get_prop example_scene ''s2cloudless'' = PImage example_cloud_image \<and>
   filter (\<lambda>b. fst b = ''probability'') (img_bands example_cloud_image)
     = [(''probability'', example_probability)] \<and>
   ''clouds'' \<notin> set (band_names example_scene) \<and>
   (\<exists>out clouds.
      eval example_backend None (add_cloud_bands (Asset example_scene)) = Some out \<and>
      map_of (img_bands out) ''clouds'' = Some clouds \<and>
      clouds (0, 0) = Some 1 \<and> clouds (1, 0) = Some 0 \<and> clouds (2, 0) = None)"
proof -
  have h1: "eval example_backend None (Asset example_scene) = Some example_scene"
    by simp
  have h2: "get_prop example_scene ''s2cloudless'' = PImage example_cloud_image"
    by (simp add: example_scene_def set_prop_def get_prop_def)
  have h3: "filter (\<lambda>b. fst b = ''probability'') (img_bands example_cloud_image)
              = [(''probability'', example_probability)]"
    by (simp add: example_cloud_image_def)
  have h4: "''clouds'' \<notin> set (band_names example_scene)"
    by (simp add: example_scene_def set_prop_def example_x1_def example_bands_def band_names_def)
  from add_cloud_bands_threshold [OF h1 h2 h3 h4]
  obtain out clouds where o:
    "eval example_backend None (add_cloud_bands (Asset example_scene)) = Some out"
    "map_of (img_bands out) ''clouds'' = Some clouds"
    "\<forall>x p. example_probability x = Some p \<longrightarrow>
        (clouds x = Some 1 \<longleftrightarrow> p > CLD_PRB_THRESH) \<and> (clouds x = Some 0 \<longleftrightarrow> \<not> p > CLD_PRB_THRESH)"
    "\<forall>x. example_probability x = None \<longrightarrow> clouds x = None"
    by blast
  have p0: "example_probability (0, 0) = Some 50" and p1: "example_probability (1, 0) = Some 40"
    and p2: "example_probability (2, 0) = None"
    by (simp_all add: example_probability_def)
  from o(3) p0 have "clouds (0, 0) = Some 1" by (simp add: CLD_PRB_THRESH_def)
  moreover from o(3) p1 have "clouds (1, 0) = Some 0" by (simp add: CLD_PRB_THRESH_def)
  moreover from o(4) p2 have "clouds (2, 0) = None" by simp
  ultimately show ?thesis using h1 h2 h3 h4 o(1,2) by blast
qed

section \<open>Band growth of the derivation stages\<close>

lemma length_add_bands: "length (add_bands bs new) = length bs + length new"
  using add_bands_extends [of bs new] by (auto dest: arg_cong [where f = length])

lemma eval_AddBands_SomeD:
  assumes "eval B c (AddBands e1 e2) = Some out"
  obtains v1 v2 where "eval B c e1 = Some v1" "eval B c e2 = Some v2"
    "img_bands out = add_bands (img_bands v1) (img_bands v2)"
  using assms by (auto simp: with_bands_def split: option.splits)

lemma eval_Rename_single:
  assumes "eval B c (Rename e [n]) = Some w"
  shows "length (img_bands w) = 1"
  using assms
  by (auto simp: with_bands_def rename_bands_def split: option.splits if_splits)

lemma eval_Cat2_SomeD:
  assumes "eval B c (Cat [a, b]) = Some w"
  obtains va vb where "eval B c a = Some va" "eval B c b = Some vb"
    "img_bands w = add_bands (img_bands va) (img_bands vb)"
  using assms by (auto simp: with_bands_def cat_images_def split: option.splits)

lemma eval_Cat3_SomeD:
  assumes "eval B c (Cat [a, b, d]) = Some w"
  obtains va vb vd where "eval B c a = Some va" "eval B c b = Some vb" "eval B c d = Some vd"
    "img_bands w = add_bands (add_bands (img_bands va) (img_bands vb)) (img_bands vd)"
  using assms by (auto simp: with_bands_def cat_images_def split: option.splits)

lemma grows_trans: "grows a b \<Longrightarrow> grows b c \<Longrightarrow> grows a c"
  by (auto simp: grows_def)

lemma AddBands_grows:
  assumes "eval B c (AddBands e1 e2) = Some out" "eval B c e1 = Some v1"
      and "\<And>v2. eval B c e2 = Some v2 \<Longrightarrow> img_bands v2 \<noteq> []"
  shows "grows v1 out"
proof -
  from eval_AddBands_SomeD [OF assms(1)]
  obtain v1' v2 where "eval B c e1 = Some v1'" and v2: "eval B c e2 = Some v2"
    and "img_bands out = add_bands (img_bands v1') (img_bands v2)"
    by blast
  with assms(2) have out: "img_bands out = add_bands (img_bands v1) (img_bands v2)"
    by simp
  from add_bands_extends [of "img_bands v1" "img_bands v2"] out
  obtain ext where ext: "img_bands out = img_bands v1 @ ext" "map snd ext = map snd (img_bands v2)"
    "fst ` set ext \<inter> fst ` set (img_bands v1) = {}"
    by auto
  from ext(2) assms(3) [OF v2] have "ext \<noteq> []" by auto
  then obtain b where b: "b \<in> set ext" by (cases ext) auto
  then have "fst b \<notin> fst ` set (img_bands v1)" using ext(3) by blast
  moreover have "fst b \<in> set (band_names out)" using b ext(1) by (simp add: band_names_def)
  moreover have "set (band_names v1) \<subseteq> set (band_names out)"
    using ext(1) by (auto simp: band_names_def)
  ultimately show ?thesis using ext(1) by (auto simp: grows_def band_names_def)
qed

lemma add_cloud_bands_grows:
  assumes "eval B c img = Some v" "eval B c (add_cloud_bands img) = Some out"
  shows "grows v out"
proof -
  let ?cld_prb = "Select (Get_image img ''s2cloudless'') [Name ''probability'']"
  let ?is_cloud = "Rename (BinOp Gt ?cld_prb (Constant CLD_PRB_THRESH)) [''clouds'']"
  have ev: "eval B c (AddBands img (Cat [?cld_prb, ?is_cloud])) = Some out"
    using assms(2) by (simp add: add_cloud_bands_def Let_def)
  have "img_bands w \<noteq> []" if "eval B c (Cat [?cld_prb, ?is_cloud]) = Some w" for w
  proof -
    from that obtain va vb where vb: "eval B c ?is_cloud = Some vb"
      and w: "img_bands w = add_bands (img_bands va) (img_bands vb)"
      by (rule eval_Cat2_SomeD)
    from eval_Rename_single [OF vb] w
      length_add_bands [of "img_bands va" "img_bands vb"]
    have "length (img_bands w) = length (img_bands va) + 1" by simp
    then show ?thesis by auto
  qed
  from AddBands_grows [OF ev assms(1) this] show ?thesis .
qed

lemma add_shadow_bands_grows:
  assumes "eval B c img = Some v" "eval B c (add_shadow_bands img use_SCL) = Some out"
  shows "grows v out"
proof -
  from assms(2) obtain dark cld where
    ev: "eval B c (AddBands img (Cat [dark, cld, Rename (BinOp Multiply cld dark) [''shadows'']]))
           = Some out"
    by (simp add: add_shadow_bands_def Let_def)
  have "img_bands w \<noteq> []"
    if "eval B c (Cat [dark, cld, Rename (BinOp Multiply cld dark) [''shadows'']]) = Some w" for w
  proof -
    from that obtain va vb vd where
      vd: "eval B c (Rename (BinOp Multiply cld dark) [''shadows'']) = Some vd"
      and w: "img_bands w = add_bands (add_bands (img_bands va) (img_bands vb)) (img_bands vd)"
      by (rule eval_Cat3_SomeD)
    from eval_Rename_single [OF vd] w
      length_add_bands [of "add_bands (img_bands va) (img_bands vb)" "img_bands vd"]
    have "length (img_bands w) = length (add_bands (img_bands va) (img_bands vb)) + 1" by simp
    then show ?thesis by auto
  qed
  from AddBands_grows [OF ev assms(1) this] show ?thesis .
qed

lemma add_cld_shdw_mask_grows:
  assumes "eval B c img = Some v" "eval B c (add_cld_shdw_mask img use_SCL) = Some out"
  shows "grows v out"
proof -
  let ?ics = "add_shadow_bands (add_cloud_bands img) use_SCL"
  from assms(2) obtain e where
    ev: "eval B c (AddBands ?ics (Rename e [''cloudmask''])) = Some out"
    by (simp add: add_cld_shdw_mask_def Let_def)
  from ev obtain v2 where v2: "eval B c ?ics = Some v2"
    by (rule eval_AddBands_SomeD)
  have "\<exists>v1. eval B c (add_cloud_bands img) = Some v1"
    using v2 by (auto simp: add_shadow_bands_def Let_def split: option.splits)
  then obtain v1 where v1: "eval B c (add_cloud_bands img) = Some v1" ..
  have "img_bands w \<noteq> []" if "eval B c (Rename e [''cloudmask'']) = Some w" for w
    using eval_Rename_single [OF that] by auto
  from AddBands_grows [OF ev v2 this] have "grows v2 out" .
  moreover have "grows v1 v2" by (rule add_shadow_bands_grows [OF v1 v2])
  moreover have "grows v v1" by (rule add_cloud_bands_grows [OF assms(1) v1])
  ultimately show ?thesis by (blast intro: grows_trans)
qed

lemmas example_defs =
  example_backend_def example_scene_def example_x1_def example_bands_def example_props_def
  example_cloud_image_def example_masked_scene_def

lemmas graph_defs =
  add_cloud_bands_def add_shadow_bands_def add_cld_shdw_mask_def apply_cld_shdw_mask_def Let_def

lemmas service_defs =
  with_bands_def set_prop_def get_prop_def select_bands_def apply_selector_def rename_bands_def
  binop_bands_def update_mask_bands_def cat_images_def add_bands_def add_band_def fresh_name_def
  constant_image_def map_rasters_def rmatch_B rmatch_literal

lemma map2_names:
  "length ms = length bs \<Longrightarrow> map fst (map (\<lambda>(b, m). (fst b, g b m)) (zip bs ms)) = map fst bs"
  by (induction ms bs rule: list_induct2) auto

lemma update_mask_bands_names:
  assumes "update_mask_bands bs ms = Some r"
  shows "map fst r = map fst bs"
proof (cases "\<exists>m. ms = [m]")
  case True
  with assms show ?thesis
    by (auto simp: update_mask_bands_def comp_def)
next
  case False
  with assms have "length ms = length bs"
    and "r = map (\<lambda>(b, m). (fst b, update_mask_raster (snd b) (snd m))) (zip bs ms)"
    by (auto simp: update_mask_bands_def split: list.splits if_splits)
  then show ?thesis
    using map2_names [of ms bs "\<lambda>b m. update_mask_raster (snd b) (snd m)"] by simp
qed

lemma select_B_bands:
  "select_bands bs [Name ''B.*''] =
     (if filter (\<lambda>b. rmatch ''B.*'' (fst b)) bs = [] then None
      else Some (filter (\<lambda>b. rmatch ''B.*'' (fst b)) bs))"
  by (simp add: select_bands_def apply_selector_def Let_def)

lemma apply_cld_shdw_mask_names:
  assumes "eval B c img = Some v" "eval B c (apply_cld_shdw_mask img) = Some out"
  shows "band_names out = filter (rmatch ''B.*'') (band_names v)"
proof -
  from assms obtain sel ms where
    "select_bands (img_bands v) [Name ''B.*''] = Some sel"
    "update_mask_bands sel ms = Some (img_bands out)"
    by (auto simp: apply_cld_shdw_mask_def Let_def with_bands_def split: option.splits)
  then have "map fst (img_bands out) = map fst (filter (\<lambda>b. rmatch ''B.*'' (fst b)) (img_bands v))"
    by (auto simp: select_B_bands dest: update_mask_bands_names split: if_splits)
  then show ?thesis
    by (simp add: band_names_def filter_map comp_def)
qed

text \<open>
  Claim C5, as amended. The three stages that add bands return an image that has every
  band of the input, unchanged and in place, and a strictly larger set of band names,
  whenever the service evaluates them. \<^verbatim>\<open>apply_cld_shdw_mask\<close> is different: its result
  has the bands whose names match \<^verbatim>\<open>B.*\<close> (the names that start with \<open>B\<close>) and no other band
  of the input.
\<close>

theorem stages_band_growth:
  assumes "eval B c img = Some v"
  shows "(\<forall>out. eval B c (add_cloud_bands img) = Some out \<longrightarrow> grows v out) \<and>
         (\<forall>use_SCL out. eval B c (add_shadow_bands img use_SCL) = Some out \<longrightarrow> grows v out) \<and>
         (\<forall>use_SCL out. eval B c (add_cld_shdw_mask img use_SCL) = Some out \<longrightarrow> grows v out) \<and>
         (\<forall>out. eval B c (apply_cld_shdw_mask img) = Some out \<longrightarrow>
            band_names out = filter (\<lambda>n. \<exists>t. n = CHR ''B'' # t) (band_names v))"
proof (intro conjI allI impI)
  fix out assume "eval B c (add_cloud_bands img) = Some out"
  then show "grows v out" by (rule add_cloud_bands_grows [OF assms])
next
  fix use_SCL out assume "eval B c (add_shadow_bands img use_SCL) = Some out"
  then show "grows v out" by (rule add_shadow_bands_grows [OF assms])
next
  fix use_SCL out assume "eval B c (add_cld_shdw_mask img use_SCL) = Some out"
  then show "grows v out" by (rule add_cld_shdw_mask_grows [OF assms])
next
  fix out assume "eval B c (apply_cld_shdw_mask img) = Some out"
  moreover have "rmatch ''B.*'' = (\<lambda>n. \<exists>t. n = CHR ''B'' # t)"
    by (rule ext) (rule rmatch_B)
  ultimately show "band_names out = filter (\<lambda>n. \<exists>t. n = CHR ''B'' # t) (band_names v)"
    using apply_cld_shdw_mask_names [OF assms] by simp
qed

theorem stages_band_growth_witness:
  "eval example_backend None (Asset example_scene) = Some example_scene \<and>
   eval example_backend None (Asset example_cloud_scene) = Some example_cloud_scene \<and>
   eval example_backend None (Asset example_masked_scene) = Some example_masked_scene \<and>
   map_option (grows example_scene)
     (eval example_backend None (add_cloud_bands (Asset example_scene))) = Some True \<and>
   map_option (grows example_cloud_scene)
     (eval example_backend None (add_shadow_bands (Asset example_cloud_scene) True)) = Some True \<and>
   map_option (grows example_scene)
     (eval example_backend None (add_cld_shdw_mask (Asset example_scene) True)) = Some True \<and>
   map_option band_names
     (eval example_backend None (apply_cld_shdw_mask (Asset example_masked_scene)))
     = Some (filter (\<lambda>n. \<exists>t. n = CHR ''B'' # t) (band_names example_masked_scene))"
proof -
  have h1: "eval example_backend None (Asset example_scene) = Some example_scene"
    and h2: "eval example_backend None (Asset example_cloud_scene) = Some example_cloud_scene"
    and h3: "eval example_backend None (Asset example_masked_scene) = Some example_masked_scene"
    by simp_all
  have e1: "eval example_backend None (add_cloud_bands (Asset example_scene)) \<noteq> None"
    by (simp add: example_defs graph_defs service_defs)
  have e2: "eval example_backend None (add_shadow_bands (Asset example_cloud_scene) True) \<noteq> None"
    by (simp add: example_defs example_cloud_scene_def graph_defs service_defs)
  have e3: "eval example_backend None (add_cld_shdw_mask (Asset example_scene) True) \<noteq> None"
    by (simp add: example_defs graph_defs service_defs)
  have e4: "eval example_backend None (apply_cld_shdw_mask (Asset example_masked_scene)) \<noteq> None"
    by (simp add: example_defs graph_defs service_defs)
  from stages_band_growth [OF h1] e1 e3
  have "map_option (grows example_scene)
          (eval example_backend None (add_cloud_bands (Asset example_scene))) = Some True"
    and "map_option (grows example_scene)
          (eval example_backend None (add_cld_shdw_mask (Asset example_scene) True)) = Some True"
    by auto
  moreover from stages_band_growth [OF h2] e2
  have "map_option (grows example_cloud_scene)
          (eval example_backend None (add_shadow_bands (Asset example_cloud_scene) True)) = Some True"
    by auto
  moreover from stages_band_growth [OF h3] e4
  have "map_option band_names
          (eval example_backend None (apply_cld_shdw_mask (Asset example_masked_scene)))
          = Some (filter (\<lambda>n. \<exists>t. n = CHR ''B'' # t) (band_names example_masked_scene))"
    by auto
  ultimately show ?thesis using h1 h2 h3 by blast
qed

theorem apply_cld_shdw_mask_drops_bands:
  "eval example_backend None (Asset example_masked_scene) = Some example_masked_scene \<and>
   band_names example_masked_scene = [''B2'', ''B8'', ''cloudmask''] \<and>
   map_option band_names
     (eval example_backend None (apply_cld_shdw_mask (Asset example_masked_scene)))
     = Some [''B2'', ''B8''] \<and>
   map_option (grows example_masked_scene)
     (eval example_backend None (apply_cld_shdw_mask (Asset example_masked_scene)))
     = Some False"
  by (simp add: example_defs graph_defs service_defs band_names_def grows_def)

section \<open>Mask applicator\<close>

lemma rmatch_B_fun: "rmatch ''B.*'' = (\<lambda>n. \<exists>t. n = CHR ''B'' # t)"
  by (rule ext) (rule rmatch_B)

lemma eval_apply_cld_shdw_mask:
  assumes "eval B c img = Some v"
      and "filter (\<lambda>b. fst b = ''cloudmask'') (img_bands v) = [(''cloudmask'', m)]"
      and "filter (\<lambda>b. \<exists>t. fst b = CHR ''B'' # t) (img_bands v) \<noteq> []"
  shows "eval B c (apply_cld_shdw_mask img) =
           Some (with_bands v
             (map (\<lambda>b. (fst b, update_mask_raster (snd b) (not_raster m)))
                  (filter (\<lambda>b. \<exists>t. fst b = CHR ''B'' # t) (img_bands v))))"
  using assms
  by (simp add: apply_cld_shdw_mask_def Let_def select_literal select_B_bands rmatch_B
      with_bands_def map_rasters_def update_mask_bands_def)

lemma masked_pixel:
  "m x = Some 1 \<Longrightarrow> update_mask_raster r (not_raster m) x = None"
  "m x = Some 0 \<Longrightarrow> update_mask_raster r (not_raster m) x = r x"
  by (simp_all add: update_mask_raster_def not_raster_def of_bool_px_def)

text \<open>
  Claim C6. Let the input image evaluate to \<open>v\<close>, with a band \<^verbatim>\<open>cloudmask\<close> of raster \<open>m\<close>
  and at least one band whose name starts with \<open>B\<close>. Then \<^verbatim>\<open>apply_cld_shdw_mask\<close> evaluates
  to an image whose bands are exactly the bands of \<open>v\<close> whose names match \<^verbatim>\<open>B.*\<close> (start
  with \<open>B\<close>), in order; in each of them a pixel where the cloudmask is 1 is masked, and a
  pixel where the cloudmask is 0 has the value it has in the input.
\<close>

theorem apply_cld_shdw_mask_masks:
  assumes "eval B c img = Some v"
      and "filter (\<lambda>b. fst b = ''cloudmask'') (img_bands v) = [(''cloudmask'', m)]"
      and "filter (\<lambda>b. \<exists>t. fst b = CHR ''B'' # t) (img_bands v) \<noteq> []"
  shows "\<exists>out. eval B c (apply_cld_shdw_mask img) = Some out \<and>
           band_names out = filter (\<lambda>n. \<exists>t. n = CHR ''B'' # t) (band_names v) \<and>
           list_all2
             (\<lambda>bo bi. fst bo = fst bi \<and>
                (\<forall>x. (m x = Some 1 \<longrightarrow> snd bo x = None) \<and>
                     (m x = Some 0 \<longrightarrow> snd bo x = snd bi x)))
             (img_bands out) (filter (\<lambda>b. \<exists>t. fst b = CHR ''B'' # t) (img_bands v))"
proof -
  let ?bs = "filter (\<lambda>b. \<exists>t. fst b = CHR ''B'' # t) (img_bands v)"
  let ?out = "with_bands v (map (\<lambda>b. (fst b, update_mask_raster (snd b) (not_raster m))) ?bs)"
  have ev: "eval B c (apply_cld_shdw_mask img) = Some ?out"
    by (rule eval_apply_cld_shdw_mask [OF assms])
  have names: "band_names ?out = filter (\<lambda>n. \<exists>t. n = CHR ''B'' # t) (band_names v)"
    by (simp add: band_names_def with_bands_def filter_map comp_def)
  have px: "list_all2
             (\<lambda>bo bi. fst bo = fst bi \<and>
                (\<forall>x. (m x = Some 1 \<longrightarrow> snd bo x = None) \<and>
                     (m x = Some 0 \<longrightarrow> snd bo x = snd bi x)))
             (img_bands ?out) ?bs"
    by (simp add: with_bands_def list_all2_map1 list.rel_refl_strong masked_pixel)
  from ev names px show ?thesis by blast
qed

theorem apply_cld_shdw_mask_masks_witness:
  "eval example_backend None (Asset example_masked_scene) = Some example_masked_scene \<and>
   filter (\<lambda>b. fst b = ''cloudmask'') (img_bands example_masked_scene)
     = [(''cloudmask'', example_cloudmask)] \<and>
   filter (\<lambda>b. \<exists>t. fst b = CHR ''B'' # t) (img_bands example_masked_scene) \<noteq> [] \<and>
   example_cloudmask (0, 0) = Some 1 \<and> example_cloudmask (1, 0) = Some 0 \<and>
   (\<exists>out b2 b8.
      eval example_backend None (apply_cld_shdw_mask (Asset example_masked_scene)) = Some out \<and>
      img_bands out = [(''B2'', b2), (''B8'', b8)] \<and>
      b2 (0, 0) = None \<and> b2 (1, 0) = Some 800 \<and> b8 (0, 0) = None \<and> b8 (1, 0) = Some 1000)"
proof -
  have h1: "eval example_backend None (Asset example_masked_scene) = Some example_masked_scene"
    by simp
  have h2: "filter (\<lambda>b. fst b = ''cloudmask'') (img_bands example_masked_scene)
              = [(''cloudmask'', example_cloudmask)]"
    by (simp add: example_masked_scene_def)
  have bs: "filter (\<lambda>b. \<exists>t. fst b = CHR ''B'' # t) (img_bands example_masked_scene)
              = [(''B2'', \<lambda>x. Some 800), (''B8'', \<lambda>x. Some 1000)]"
    by (simp add: example_masked_scene_def)
  then have h3: "filter (\<lambda>b. \<exists>t. fst b = CHR ''B'' # t) (img_bands example_masked_scene) \<noteq> []"
    by simp
  have m0: "example_cloudmask (0, 0) = Some 1" and m1: "example_cloudmask (1, 0) = Some 0"
    by (simp_all add: example_cloudmask_def)
  from apply_cld_shdw_mask_masks [OF h1 h2 h3]
  obtain out where o:
    "eval example_backend None (apply_cld_shdw_mask (Asset example_masked_scene)) = Some out"
    "list_all2
       (\<lambda>bo bi. fst bo = fst bi \<and>
          (\<forall>x. (example_cloudmask x = Some 1 \<longrightarrow> snd bo x = None) \<and>
               (example_cloudmask x = Some 0 \<longrightarrow> snd bo x = snd bi x)))
       (img_bands out) [(''B2'', \<lambda>x. Some 800), (''B8'', \<lambda>x. Some 1000)]"
    unfolding bs by blast
  from o(2) obtain b2 b8 where
    "img_bands out = [(''B2'', b2), (''B8'', b8)]"
    "\<forall>x. (example_cloudmask x = Some 1 \<longrightarrow> b2 x = None) \<and>
         (example_cloudmask x = Some 0 \<longrightarrow> b2 x = Some 800)"
    "\<forall>x. (example_cloudmask x = Some 1 \<longrightarrow> b8 x = None) \<and>
         (example_cloudmask x = Some 0 \<longrightarrow> b8 x = Some 1000)"
    by (auto simp: list_all2_Cons2)
  with m0 m1 have "img_bands out = [(''B2'', b2), (''B8'', b8)] \<and>
      b2 (0, 0) = None \<and> b2 (1, 0) = Some 800 \<and> b8 (0, 0) = None \<and> b8 (1, 0) = Some 1000"
    by simp
  with o(1) h1 h2 h3 m0 m1 show ?thesis by blast
qed

section \<open>Shadow band deriver\<close>

lemma select_index0:
  "bs \<noteq> [] \<Longrightarrow> select_bands bs [Index 0] = Some [bs ! 0]"
  by (simp add: select_bands_def apply_selector_def)

lemma add_bands_three_fresh:
  "add_bands [] [(''dark_pixels'', a)] = [(''dark_pixels'', a)]"
  "add_bands [(''dark_pixels'', a)] [(''cloud_transform'', b)]
     = [(''dark_pixels'', a), (''cloud_transform'', b)]"
  "add_bands [(''dark_pixels'', a), (''cloud_transform'', b)] [(''shadows'', d)]
     = [(''dark_pixels'', a), (''cloud_transform'', b), (''shadows'', d)]"
  by (simp_all add: add_bands_def add_band_def fresh_name_def)

lemma eval_not_water:
  assumes "eval B c img = Some v"
      and "if use_SCL
           then filter (\<lambda>b. fst b = ''SCL'') (img_bands v) = [(''SCL'', scl)] \<and>
                nw = binop_raster Neq scl (\<lambda>x. Some 6)
           else filter (\<lambda>b. fst b = ''B4'') (img_bands v) = [(''B4'', b4)] \<and>
                filter (\<lambda>b. fst b = ''B2'') (img_bands v) = [(''B2'', b2)] \<and>
                nw = binop_raster Lt (be_nd B b4 b2) (\<lambda>x. Some 0.2)"
  shows "\<exists>k. eval B c (if use_SCL
                 then BinOp Neq (Select img [Name ''SCL'']) (Constant 6)
                 else BinOp Lt (NormalizedDifference img [''B4'', ''B2'']) (Constant 0.2))
           = Some (with_bands v [(k, nw)])"
proof (cases use_SCL)
  case True
  with assms show ?thesis
    by (simp add: select_literal with_bands_def constant_image_def binop_bands_def)
next
  case False
  with assms have "select_bands (img_bands v) (map Name [''B4'', ''B2'']) = Some [(''B4'', b4), (''B2'', b2)]"
    by (simp add: select_bands_def apply_selector_def rmatch_literal Let_def)
  with False assms show ?thesis
    by (simp add: with_bands_def constant_image_def binop_bands_def)
qed

lemma eval_dark_pixels:
  assumes "eval B c img = Some v"
      and "filter (\<lambda>b. fst b = ''B8'') (img_bands v) = [(''B8'', b8)]"
      and "eval B c nwe = Some (with_bands v [(k, nw)])"
  shows "eval B c (Rename (BinOp Multiply
                      (BinOp Lt (Select img [Name ''B8'']) (Constant (NIR_DRK_THRESH * 10000))) nwe)
                    [''dark_pixels''])
           = Some (with_bands v [(''dark_pixels'',
                binop_raster Multiply (binop_raster Lt b8 (\<lambda>x. Some (NIR_DRK_THRESH * 10000))) nw)])"
  using assms
  by (simp add: select_literal with_bands_def constant_image_def binop_bands_def rename_bands_def)

lemma eval_cloud_transform:
  assumes "eval B (Some (crs, 100)) img = Some v" "eval B c img = Some v"
      and "filter (\<lambda>b. fst b = ''clouds'') (img_bands v) = [(''clouds'', cl)]"
      and "get_prop v ''MEAN_SOLAR_AZIMUTH_ANGLE'' = PNum az"
      and "be_projection B (with_bands v [img_bands v ! 0]) = Some crs"
      and "filter (\<lambda>b. fst b = ''distance'')
             (be_ddt B (Some (crs, 100)) (90 - az) (CLD_PRJ_DIST * 10) [(''clouds'', cl)])
           = [(''distance'', d)]"
  shows "eval B c (Rename (Mask (Select
            (Reproject (DirectionalDistanceTransform (Select img [Name ''clouds''])
                          (Subtract (Num 90) (Get_number img ''MEAN_SOLAR_AZIMUTH_ANGLE''))
                          (CLD_PRJ_DIST * 10))
                       (Projection (Select img [Index 0])) 100)
            [Name ''distance''])) [''cloud_transform''])
         = Some (with_bands v [(''cloud_transform'',
              mask_raster (be_reproject B c (crs, 100) d))])"
proof -
  from assms(3) have ne: "img_bands v \<noteq> []" by auto
  have p: "eval_proj B c (Projection (Select img [Index 0])) = Some crs"
    using assms(2,5) ne by (simp add: select_index0)
  have ddt: "eval B (Some (crs, 100))
               (DirectionalDistanceTransform (Select img [Name ''clouds''])
                  (Subtract (Num 90) (Get_number img ''MEAN_SOLAR_AZIMUTH_ANGLE''))
                  (CLD_PRJ_DIST * 10))
             = Some (with_bands v
                 (be_ddt B (Some (crs, 100)) (90 - az) (CLD_PRJ_DIST * 10) [(''clouds'', cl)]))"
    using assms(1,3,4) by (simp add: select_literal with_bands_def)
  have filt: "filter (\<lambda>b. fst b = ''distance'')
                (map (\<lambda>b. (fst b, be_reproject B c (crs, 100) (snd b)))
                  (be_ddt B (Some (crs, 100)) (90 - az) (CLD_PRJ_DIST * 10) [(''clouds'', cl)]))
              = [(''distance'', be_reproject B c (crs, 100) d)]"
  proof -
    have "filter (\<lambda>b. fst b = ''distance'')
            (map (\<lambda>b. (fst b, be_reproject B c (crs, 100) (snd b)))
              (be_ddt B (Some (crs, 100)) (90 - az) (CLD_PRJ_DIST * 10) [(''clouds'', cl)]))
          = map (\<lambda>b. (fst b, be_reproject B c (crs, 100) (snd b)))
              (filter (\<lambda>b. fst b = ''distance'')
                (be_ddt B (Some (crs, 100)) (90 - az) (CLD_PRJ_DIST * 10) [(''clouds'', cl)]))"
      by (simp add: filter_map comp_def)
    also have "\<dots> = [(''distance'', be_reproject B c (crs, 100) d)]"
      by (simp only: assms(6)) simp
    finally show ?thesis .
  qed
  show ?thesis
    using p ddt filt
    by (simp add: select_literal with_bands_def map_rasters_def rename_bands_def)
qed

lemma dark_pixel_iff:
  "binop_raster Multiply (binop_raster Lt b8 (\<lambda>x. Some t)) nw x = Some 1
     \<longleftrightarrow> (\<exists>p. b8 x = Some p \<and> p < t) \<and> nw x = Some 1"
  by (auto simp: binop_raster_def of_bool_px_def split: option.splits)

lemma mask_pixel_iff: "mask_raster r x = Some 1 \<longleftrightarrow> r x \<noteq> None"
  by (simp add: mask_raster_def split: option.splits)

lemma shadow_pixel_iff:
  "binop_raster Multiply (mask_raster r) dark x = Some 1
     \<longleftrightarrow> mask_raster r x = Some 1 \<and> dark x = Some 1"
  by (auto simp: binop_raster_def mask_raster_def split: option.splits)

text \<open>
  Claim C4. Let the input image evaluate to \<open>v\<close> (in whatever projection it is
  requested), with bands \<^verbatim>\<open>B8\<close> and \<^verbatim>\<open>clouds\<close> and the property
  \<^verbatim>\<open>MEAN_SOLAR_AZIMUTH_ANGLE\<close> = \<open>az\<close>; let \<open>nw\<close> be the not-water layer of the chosen
  method (SCL different from 6, or the normalised difference of B4 and B2 below 0.2), and
  let \<open>d\<close> be the \<^verbatim>\<open>distance\<close> band the service's directional distance transform returns
  for the \<^verbatim>\<open>clouds\<close> band, the angle \<open>90 - az\<close> and the distance \<open>CLD_PRJ_DIST * 10 = 10\<close>,
  computed at 100 m scale in the projection of the image's first band. Then
  \<^verbatim>\<open>add_shadow_bands\<close> evaluates and adds three bands: \<^verbatim>\<open>dark_pixels\<close>, the pixelwise
  product of \<open>B8 < NIR_DRK_THRESH * 1e4 = 1500\<close> and not-water, which is 1 exactly where B8
  is below 1500 and not-water is 1; \<^verbatim>\<open>cloud_transform\<close>,
  the mask of the reprojected distance band (1 exactly where that distance is defined); and
  \<^verbatim>\<open>shadows\<close>, their pixelwise product, which is 1 exactly where both are 1.
\<close>

theorem add_shadow_bands_layers:
  assumes "\<forall>c'. eval B c' img = Some v"
      and "filter (\<lambda>b. fst b = ''B8'') (img_bands v) = [(''B8'', b8)]"
      and "filter (\<lambda>b. fst b = ''clouds'') (img_bands v) = [(''clouds'', cl)]"
      and "if use_SCL
           then filter (\<lambda>b. fst b = ''SCL'') (img_bands v) = [(''SCL'', scl)] \<and>
                nw = binop_raster Neq scl (\<lambda>x. Some 6)
           else filter (\<lambda>b. fst b = ''B4'') (img_bands v) = [(''B4'', b4)] \<and>
                filter (\<lambda>b. fst b = ''B2'') (img_bands v) = [(''B2'', b2)] \<and>
                nw = binop_raster Lt (be_nd B b4 b2) (\<lambda>x. Some 0.2)"
      and "get_prop v ''MEAN_SOLAR_AZIMUTH_ANGLE'' = PNum az"
      and "be_projection B (with_bands v [img_bands v ! 0]) = Some crs"
      and "filter (\<lambda>b. fst b = ''distance'')
             (be_ddt B (Some (crs, 100)) (90 - az) (CLD_PRJ_DIST * 10) [(''clouds'', cl)])
           = [(''distance'', d)]"
  shows "\<exists>out dark ct sh.
           eval B c (add_shadow_bands img use_SCL) = Some out \<and>
           img_bands out = add_bands (img_bands v)
             [(''dark_pixels'', dark), (''cloud_transform'', ct), (''shadows'', sh)] \<and>
           NIR_DRK_THRESH * 10000 = 1500 \<and> CLD_PRJ_DIST * 10 = 10 \<and>
           dark = binop_raster Multiply (binop_raster Lt b8 (\<lambda>x. Some 1500)) nw \<and>
           (\<forall>x. dark x = Some 1 \<longleftrightarrow> (\<exists>p. b8 x = Some p \<and> p < 1500) \<and> nw x = Some 1) \<and>
           ct = mask_raster (be_reproject B c (crs, 100) d) \<and>
           (\<forall>x. ct x = Some 1 \<longleftrightarrow> be_reproject B c (crs, 100) d x \<noteq> None) \<and>
           sh = binop_raster Multiply ct dark \<and>
           (\<forall>x. sh x = Some 1 \<longleftrightarrow> ct x = Some 1 \<and> dark x = Some 1)"
proof -
  let ?nwe = "if use_SCL
              then BinOp Neq (Select img [Name ''SCL'']) (Constant 6)
              else BinOp Lt (NormalizedDifference img [''B4'', ''B2'']) (Constant 0.2)"
  let ?dark = "binop_raster Multiply (binop_raster Lt b8 (\<lambda>x. Some (NIR_DRK_THRESH * 10000))) nw"
  let ?ct = "mask_raster (be_reproject B c (crs, 100) d)"
  let ?sh = "binop_raster Multiply ?ct ?dark"
  let ?dark_e = "Rename (BinOp Multiply
                      (BinOp Lt (Select img [Name ''B8'']) (Constant (NIR_DRK_THRESH * 10000))) ?nwe)
                    [''dark_pixels'']"
  let ?ct_e = "Rename (Mask (Select
            (Reproject (DirectionalDistanceTransform (Select img [Name ''clouds''])
                          (Subtract (Num 90) (Get_number img ''MEAN_SOLAR_AZIMUTH_ANGLE''))
                          (CLD_PRJ_DIST * 10))
                       (Projection (Select img [Index 0])) 100)
            [Name ''distance''])) [''cloud_transform'']"
  have ev: "eval B c img = Some v" and ev100: "eval B (Some (crs, 100)) img = Some v"
    using assms(1) by simp_all
  from eval_not_water [OF ev assms(4)]
  obtain k where nwe: "eval B c ?nwe = Some (with_bands v [(k, nw)])" by blast
  have dark: "eval B c ?dark_e = Some (with_bands v [(''dark_pixels'', ?dark)])"
    by (rule eval_dark_pixels [OF ev assms(2) nwe])
  have ct: "eval B c ?ct_e = Some (with_bands v [(''cloud_transform'', ?ct)])"
    by (rule eval_cloud_transform [OF ev100 ev assms(3) assms(5) assms(6) assms(7)])
  have sh: "eval B c (Rename (BinOp Multiply ?ct_e ?dark_e) [''shadows''])
              = Some (with_bands v [(''shadows'', ?sh)])"
    using dark ct by (simp add: with_bands_def binop_bands_def rename_bands_def)
  have cat: "eval B c (Cat [?dark_e, ?ct_e, Rename (BinOp Multiply ?ct_e ?dark_e) [''shadows'']])
               = Some (with_bands v
                   [(''dark_pixels'', ?dark), (''cloud_transform'', ?ct), (''shadows'', ?sh)])"
    using dark ct sh by (simp add: cat_images_def with_bands_def add_bands_three_fresh)
  have unfold: "add_shadow_bands img use_SCL
      = AddBands img (Cat [?dark_e, ?ct_e, Rename (BinOp Multiply ?ct_e ?dark_e) [''shadows'']])"
    by (simp add: add_shadow_bands_def Let_def)
  have out: "eval B c (add_shadow_bands img use_SCL)
      = Some (with_bands v (add_bands (img_bands v)
           [(''dark_pixels'', ?dark), (''cloud_transform'', ?ct), (''shadows'', ?sh)]))"
    unfolding unfold using ev cat by (simp add: with_bands_def)
  have thr: "NIR_DRK_THRESH * 10000 = 1500" by (simp add: NIR_DRK_THRESH_def)
  have dist: "CLD_PRJ_DIST * 10 = 10" by (simp add: CLD_PRJ_DIST_def)
  have deq: "?dark = binop_raster Multiply (binop_raster Lt b8 (\<lambda>x. Some 1500)) nw"
    by (simp add: thr)
  have dpx: "\<forall>x. ?dark x = Some 1 \<longleftrightarrow> (\<exists>p. b8 x = Some p \<and> p < 1500) \<and> nw x = Some 1"
    by (simp add: dark_pixel_iff thr)
  have cpx: "\<forall>x. ?ct x = Some 1 \<longleftrightarrow> be_reproject B c (crs, 100) d x \<noteq> None"
    by (simp add: mask_pixel_iff)
  have spx: "\<forall>x. ?sh x = Some 1 \<longleftrightarrow> ?ct x = Some 1 \<and> ?dark x = Some 1"
    by (simp only: shadow_pixel_iff simp_thms)
  let ?outv = "with_bands v (add_bands (img_bands v)
           [(''dark_pixels'', ?dark), (''cloud_transform'', ?ct), (''shadows'', ?sh)])"
  have bands: "img_bands ?outv = add_bands (img_bands v)
           [(''dark_pixels'', ?dark), (''cloud_transform'', ?ct), (''shadows'', ?sh)]"
    by (simp add: with_bands_def)
  show ?thesis
    apply (rule exI [of _ ?outv], rule exI [of _ ?dark], rule exI [of _ ?ct], rule exI [of _ ?sh])
    apply (intro conjI)
    apply (rule out, rule bands, rule thr, rule dist, rule deq, rule dpx, rule refl, rule cpx,
           rule refl, rule spx)
    done
qed

theorem add_shadow_bands_layers_witness:
  "\<exists>out dark ct sh.
     eval example_backend None (add_shadow_bands (Asset example_cloud_scene) True) = Some out \<and>
     img_bands out = add_bands (img_bands example_cloud_scene)
       [(''dark_pixels'', dark), (''cloud_transform'', ct), (''shadows'', sh)] \<and>
     dark (0, 0) = Some 1 \<and> dark (1, 0) = Some 1 \<and>
     ct (0, 0) = Some 1 \<and> ct (1, 0) \<noteq> Some 1 \<and>
     sh (0, 0) = Some 1 \<and> sh (1, 0) \<noteq> Some 1"
proof -
  let ?d = "\<lambda>x. case example_clouds x of None \<Rightarrow> None
                 | Some q \<Rightarrow> if q = 0 then None else Some (0::real)"
  let ?nw = "binop_raster Neq (\<lambda>x. Some 4) (\<lambda>x. Some 6)"
  have h1: "\<forall>c'. eval example_backend c' (Asset example_cloud_scene) = Some example_cloud_scene"
    by simp
  have h2: "filter (\<lambda>b. fst b = ''B8'') (img_bands example_cloud_scene) = [(''B8'', \<lambda>x. Some 1000)]"
    by (simp add: example_cloud_scene_def example_bands_def)
  have h3: "filter (\<lambda>b. fst b = ''clouds'') (img_bands example_cloud_scene)
              = [(''clouds'', example_clouds)]"
    by (simp add: example_cloud_scene_def example_bands_def)
  have h4: "if True
           then filter (\<lambda>b. fst b = ''SCL'') (img_bands example_cloud_scene) = [(''SCL'', \<lambda>x. Some 4)] \<and>
                ?nw = binop_raster Neq (\<lambda>x. Some 4) (\<lambda>x. Some 6)
           else filter (\<lambda>b. fst b = ''B4'') (img_bands example_cloud_scene) = [(''B4'', b4)] \<and>
                filter (\<lambda>b. fst b = ''B2'') (img_bands example_cloud_scene) = [(''B2'', b2)] \<and>
                ?nw = binop_raster Lt (be_nd example_backend b4 b2) (\<lambda>x. Some 0.2)"
    for b4 b2
    by (simp add: example_cloud_scene_def example_bands_def)
  have h5: "get_prop example_cloud_scene ''MEAN_SOLAR_AZIMUTH_ANGLE'' = PNum 160"
    by (simp add: example_cloud_scene_def example_props_def get_prop_def)
  have h6: "be_projection example_backend
              (with_bands example_cloud_scene [img_bands example_cloud_scene ! 0])
            = Some ''EPSG:32622''"
    by (simp add: example_backend_def)
  have h7: "filter (\<lambda>b. fst b = ''distance'')
             (be_ddt example_backend (Some (''EPSG:32622'', 100)) (90 - 160) (CLD_PRJ_DIST * 10)
                [(''clouds'', example_clouds)])
           = [(''distance'', ?d)]"
    by (simp add: example_backend_def)
  from add_shadow_bands_layers [OF h1 h2 h3 h4 h5 h6 h7, of None]
  obtain out dark ct sh where o:
    "eval example_backend None (add_shadow_bands (Asset example_cloud_scene) True) = Some out"
    "img_bands out = add_bands (img_bands example_cloud_scene)
       [(''dark_pixels'', dark), (''cloud_transform'', ct), (''shadows'', sh)]"
    "\<forall>x. dark x = Some 1 \<longleftrightarrow> (\<exists>p. (Some 1000 :: real option) = Some p \<and> p < 1500) \<and> ?nw x = Some 1"
    "\<forall>x. ct x = Some 1 \<longleftrightarrow> be_reproject example_backend None (''EPSG:32622'', 100) ?d x \<noteq> None"
    "\<forall>x. sh x = Some 1 \<longleftrightarrow> ct x = Some 1 \<and> dark x = Some 1"
    by blast
  have nw: "?nw x = Some 1" for x
    by (simp add: binop_raster_def of_bool_px_def)
  have dark: "dark x = Some 1" for x
    using o(3) nw by (cases x) simp
  have d0: "be_reproject example_backend None (''EPSG:32622'', 100) ?d (0, 0) \<noteq> None"
    and d1: "be_reproject example_backend None (''EPSG:32622'', 100) ?d (1, 0) = None"
    by (simp_all add: example_backend_def example_clouds_def)
  have "ct (0, 0) = Some 1" and "ct (1, 0) \<noteq> Some 1"
    using o(4) d0 d1 by simp_all
  moreover from this have "sh (0, 0) = Some 1" and "sh (1, 0) \<noteq> Some 1"
    using o(5) dark by simp_all
  ultimately show ?thesis using o(1,2) dark by blast
qed

section \<open>Mask combiner\<close>

text \<open>
  What the service computes for the graph of the mask: the focal minimum and the focal
  maximum run in the projection and at the scale of the enclosing \<^verbatim>\<open>reproject\<close>, so their
  radii count pixels of 20 m.
\<close>

lemma eval_cloudmask_pipeline:
  assumes "eval_proj B c p = Some crs"
      and "eval B (Some (crs, 20)) e = Some w"
      and "img_bands w = [(k, combined)]"
  shows "eval B c (Rename (Reproject (FocalMax (FocalMin e 2) r) p 20) [''cloudmask''])
           = Some (with_bands w [(''cloudmask'',
               be_reproject B c (crs, 20)
                 (be_focal_max B (Some (crs, 20)) r
                    (be_focal_min B (Some (crs, 20)) 2 combined)))])"
  using assms by (simp add: map_rasters_def with_bands_def rename_bands_def)

text \<open>
  Claim C2. The mask that \<^verbatim>\<open>add_cld_shdw_mask\<close> adds is the combined cloud/shadow layer
  \<open>(clouds + shadows) > 0\<close>, eroded by a focal minimum of radius 2, then dilated by a focal
  maximum, then reprojected at scale 20 in the projection of the image's first band, then
  renamed \<^verbatim>\<open>cloudmask\<close>. The radius of the focal maximum is \<open>BUFFER * 2 / 20 = 10\<close> pixels;
  the buffer distance of 100 m is \<open>BUFFER / 20 = 5\<close> pixels of 20 m, so the graph differs
  from the one with a dilation by the buffer distance.
\<close>

theorem add_cld_shdw_mask_dilation_radius:
  "add_cld_shdw_mask img use_SCL =
     (let img_cloud_shadow = add_shadow_bands (add_cloud_bands img) use_SCL;
          combined = BinOp Gt (BinOp Add (Select img_cloud_shadow [Name ''clouds''])
                                         (Select img_cloud_shadow [Name ''shadows'']))
                              (Constant 0)
      in AddBands img_cloud_shadow
           (Rename (Reproject (FocalMax (FocalMin combined 2) 10)
                              (Projection (Select img [Index 0])) 20)
                   [''cloudmask''])) \<and>
   BUFFER * 2 / 20 = 10 \<and> BUFFER / 20 = 5 \<and>
   add_cld_shdw_mask img use_SCL \<noteq>
     (let img_cloud_shadow = add_shadow_bands (add_cloud_bands img) use_SCL;
          combined = BinOp Gt (BinOp Add (Select img_cloud_shadow [Name ''clouds''])
                                         (Select img_cloud_shadow [Name ''shadows'']))
                              (Constant 0)
      in AddBands img_cloud_shadow
           (Rename (Reproject (FocalMax (FocalMin combined 2) (BUFFER / 20))
                              (Projection (Select img [Index 0])) 20)
                   [''cloudmask'']))"
  by (simp add: add_cld_shdw_mask_def Let_def BUFFER_def)

section \<open>Region reducer\<close>

lemma feature_get_set [simp]: "feature_get (feature_set f k p) k = p"
  by (simp add: feature_get_def feature_set_def)

text \<open>
  Claim C7. With \<open>add_date\<close> enabled, every feature that the reducer function returns for
  an image carries the property \<^verbatim>\<open>millis\<close>, and its value is the image's acquisition time
  \<^verbatim>\<open>system:time_start\<close> in milliseconds, hence the same for all features of one image;
  there is one feature for each feature of the region reduction.
\<close>

theorem reduce_regions_millis:
  "(\<forall>f \<in> set (create_reduce_regions reduceRegions collection reducer True add_props crs scale img).
      feature_get f ''millis'' = PNum (of_int (img_time_start img))) \<and>
   (\<forall>f \<in> set (create_reduce_regions reduceRegions collection reducer True add_props crs scale img).
    \<forall>g \<in> set (create_reduce_regions reduceRegions collection reducer True add_props crs scale img).
      feature_get f ''millis'' = feature_get g ''millis'') \<and>
   length (create_reduce_regions reduceRegions collection reducer True add_props crs scale img)
     = length (reduceRegions img collection reducer crs scale)"
  by (cases add_props) (auto simp: create_reduce_regions_def Let_def set_date_def)

theorem reduce_regions_millis_witness:
  "length (create_reduce_regions example_reduceRegions example_regions ''mean'' True
             (Some [''CLOUDY_PIXEL_PERCENTAGE'']) CRS 20 example_x1) = 2 \<and>
   list_all (\<lambda>f. feature_get f ''millis'' = PNum 1000)
     (create_reduce_regions example_reduceRegions example_regions ''mean'' True
        (Some [''CLOUDY_PIXEL_PERCENTAGE'']) CRS 20 example_x1)"
proof -
  have "length (example_reduceRegions example_x1 example_regions ''mean'' CRS 20) = 2"
    by (simp add: example_reduceRegions_def example_regions_def)
  moreover have "img_time_start example_x1 = 1000"
    by (simp add: example_x1_def)
  ultimately show ?thesis
    using reduce_regions_millis [of example_reduceRegions example_regions "''mean''"
        "Some [''CLOUDY_PIXEL_PERCENTAGE'']" CRS 20 example_x1]
    by (simp add: list_all_iff)
qed

section \<open>Errors raised before any round trip\<close>

text \<open>
  Claim C8. \<^verbatim>\<open>fc_to_dict\<close> and \<^verbatim>\<open>create_df\<close> raise \<^verbatim>\<open>NotImplementedError\<close> whatever their
  argument, and \<^verbatim>\<open>fc_to_df\<close> raises (the \<^verbatim>\<open>assert\<close>) when \<^verbatim>\<open>selectors\<close> is neither \<^verbatim>\<open>None\<close>
  nor a list; in each case the log of round trips to the service is as it was before the
  call.
\<close>

theorem errors_before_round_trips:
  "fc_to_dict fc trips = (Inl NotImplementedError, trips) \<and>
   create_df dictobj trips = (Inl NotImplementedError, trips) \<and>
   (selectors \<noteq> PyNone \<and> (\<forall>names. selectors \<noteq> PyList names) \<longrightarrow>
      fc_to_df pd svc fc selectors trips = (Inl AssertionError, trips))"
  by (cases selectors) (simp_all add: fc_to_dict_def create_df_def fc_to_df_def)

theorem errors_before_round_trips_witness:
  "PyStr ''millis'' \<noteq> PyNone \<and> (\<forall>names. PyStr ''millis'' \<noteq> PyList names) \<and>
   fc_to_dict example_regions [] = (Inl NotImplementedError, []) \<and>
   create_df example_regions [] = (Inl NotImplementedError :: py_error + unit, []) \<and>
   fc_to_df example_pandas example_service example_regions (PyStr ''millis'') []
     = (Inl AssertionError, [])"
  using errors_before_round_trips [of example_regions "[]" example_regions "PyStr ''millis''"
      example_pandas example_service]
  by simp

section \<open>Date of an image\<close>

text \<open>
  The branch of \<open>getInfo\<close> that \<^verbatim>\<open>fc_to_df\<close> takes: called without a further argument it
  makes its round trip and returns the answer.
\<close>

lemma getInfo_no_argument: "getInfo [] req answer trips = (answer, trips @ [req])"
  by (simp add: getInfo_def)

text \<open>
  Claim C10. \<^verbatim>\<open>get_date\<close> passes the local function \<^verbatim>\<open>cb\<close> to \<^verbatim>\<open>getInfo\<close>, which takes no
  argument: whatever the image, the call raises \<^verbatim>\<open>TypeError\<close>, no round trip is made and
  no date-time is returned.
\<close>

theorem get_date_raises:
  "get_date pf im attr trips = (Inl TypeError, trips)"
  by (simp add: get_date_def getInfo_def)

theorem get_date_raises_witness:
  "get_prop example_x1 ''system:time_start'' = PNum 1000 \<and>
   get_date example_platform example_x1 ''system:time_start'' [] = (Inl TypeError, [])"
  using get_date_raises [of example_platform example_x1 "''system:time_start''" "[]"]
  by (simp add: get_prop_def example_x1_def)

section \<open>Collection joiner\<close>

lemma index_of_set_prop [simp]: "img_index (set_prop p k v) = img_index p"
  by (simp add: set_prop_def)

lemma get_s2cloudless_set_prop [simp]:
  "get_prop (set_prop p ''s2cloudless'' v) ''s2cloudless'' = v"
  by (simp add: get_prop_def set_prop_def)

lemma condition_index_equals [simp]:
  "condition_holds (Filter_equals ''system:index'' ''system:index'') p m
     \<longleftrightarrow> img_index m = img_index p"
  by (auto simp: get_prop_def)

lemma condition_index_fun:
  "condition_holds (Filter_equals ''system:index'' ''system:index'') p
     = (\<lambda>m. img_index m = img_index p)"
  by (rule ext) (auto simp: get_prop_def)

lemma in_map_filterD:
  "y \<in> set (List.map_filter f xs) \<Longrightarrow> \<exists>x \<in> set xs. f x = Some y"
  by (induction xs) (auto split: option.splits)

lemma join_saveFirst_index:
  "join_apply (Join_saveFirst ''s2cloudless'') primary secondary
      (Filter_equals ''system:index'' ''system:index'')
   = List.map_filter (attach_first secondary) primary"
  by (simp add: condition_index_fun)
     (rule arg_cong [where f = "\<lambda>f. List.map_filter f primary"],
      auto simp: attach_first_def fun_eq_iff split: option.splits)

lemma attach_first_None:
  "attach_first secondary p = None \<longleftrightarrow> (\<forall>m \<in> set secondary. img_index m \<noteq> img_index p)"
  by (auto simp: attach_first_def find_None_iff)

lemma attach_first_index: "attach_first secondary p = Some out \<Longrightarrow> img_index out = img_index p"
  by (auto simp: attach_first_def)

lemma map_filter_attach_indices:
  "map img_index (List.map_filter (attach_first secondary) primary)
     = map img_index (filter (\<lambda>p. \<exists>m \<in> set secondary. img_index m = img_index p) primary)"
proof (induction primary)
  case Nil
  show ?case by (simp add: List.map_filter_simps)
next
  case (Cons p primary)
  show ?case
  proof (cases "attach_first secondary p")
    case None
    with Cons show ?thesis
      using attach_first_None [of secondary p] by (auto simp: List.map_filter_simps)
  next
    case (Some out)
    then have "\<exists>m \<in> set secondary. img_index m = img_index p"
      using attach_first_None [of secondary p] by auto
    with Some Cons show ?thesis
      by (simp add: List.map_filter_simps attach_first_index)
  qed
qed

text \<open>
  Claim C1. Let \<open>refl\<close> be the reflectance collection after its date, bounds and
  cloud-percentage filters and \<open>clouds\<close> the cloud-probability collection after its date and
  bounds filters. \<^verbatim>\<open>get_s2_sr_cld_col\<close> is the inner join of the two on equality of
  \<^verbatim>\<open>system:index\<close> that saves the first match: every image of the result is an image of
  \<open>refl\<close> with the first image of \<open>clouds\<close> that has the same identifier as its \<^verbatim>\<open>s2cloudless\<close>
  property; an image of \<open>refl\<close> without such an image in \<open>clouds\<close> has no image in the result;
  and the result has the matched images of \<open>refl\<close>, once each and in their order.
\<close>

theorem get_s2_sr_cld_col_inner_join:
  "let refl = filter_collection (Filter_lte ''CLOUDY_PIXEL_PERCENTAGE'' CLOUD_FILTER)
                (get_collection catalog bounds start_date end_date ''COPERNICUS/S2'');
       clouds = get_collection catalog bounds start_date end_date ''COPERNICUS/S2_CLOUD_PROBABILITY'';
       out = get_s2_sr_cld_col catalog bounds start_date end_date
   in (\<forall>j \<in> set out. \<exists>p \<in> set refl. \<exists>m.
          find (\<lambda>m. img_index m = img_index p) clouds = Some m \<and>
          j = set_prop p ''s2cloudless'' (PImage m) \<and>
          get_prop j ''s2cloudless'' = PImage m) \<and>
      (\<forall>p \<in> set refl. (\<forall>m \<in> set clouds. img_index m \<noteq> img_index p) \<longrightarrow>
          (\<forall>j \<in> set out. img_index j \<noteq> img_index p)) \<and>
      map img_index out
        = map img_index (filter (\<lambda>p. \<exists>m \<in> set clouds. img_index m = img_index p) refl)"
proof -
  define refl where "refl = filter_collection (Filter_lte ''CLOUDY_PIXEL_PERCENTAGE'' CLOUD_FILTER)
                (get_collection catalog bounds start_date end_date ''COPERNICUS/S2'')"
  define clouds where
    "clouds = get_collection catalog bounds start_date end_date ''COPERNICUS/S2_CLOUD_PROBABILITY''"
  define out where "out = get_s2_sr_cld_col catalog bounds start_date end_date"
  have out: "out = List.map_filter (attach_first clouds) refl"
    by (simp add: out_def refl_def clouds_def get_s2_sr_cld_col_def Let_def join_saveFirst_index
        del: join_apply.simps)
  have from_primary: "\<exists>p \<in> set refl. attach_first clouds p = Some j" if "j \<in> set out" for j
    using that unfolding out by (rule in_map_filterD)
  have a: "\<forall>j \<in> set out. \<exists>p \<in> set refl. \<exists>m.
          find (\<lambda>m. img_index m = img_index p) clouds = Some m \<and>
          j = set_prop p ''s2cloudless'' (PImage m) \<and>
          get_prop j ''s2cloudless'' = PImage m"
  proof
    fix j assume "j \<in> set out"
    then obtain p where "p \<in> set refl" "attach_first clouds p = Some j"
      using from_primary by blast
    then show "\<exists>p \<in> set refl. \<exists>m.
          find (\<lambda>m. img_index m = img_index p) clouds = Some m \<and>
          j = set_prop p ''s2cloudless'' (PImage m) \<and>
          get_prop j ''s2cloudless'' = PImage m"
      by (auto simp: attach_first_def)
  qed
  have b: "\<forall>p \<in> set refl. (\<forall>m \<in> set clouds. img_index m \<noteq> img_index p) \<longrightarrow>
          (\<forall>j \<in> set out. img_index j \<noteq> img_index p)"
  proof (intro ballI impI)
    fix p j assume p: "\<forall>m \<in> set clouds. img_index m \<noteq> img_index p" and "j \<in> set out"
    then obtain q where q: "attach_first clouds q = Some j"
      using from_primary by blast
    then have "\<not> (\<forall>m \<in> set clouds. img_index m \<noteq> img_index q)"
      using attach_first_None [of clouds q] by simp
    moreover have "img_index j = img_index q"
      using q by (rule attach_first_index)
    ultimately show "img_index j \<noteq> img_index p" using p by auto
  qed
  have c: "map img_index out
        = map img_index (filter (\<lambda>p. \<exists>m \<in> set clouds. img_index m = img_index p) refl)"
    unfolding out by (rule map_filter_attach_indices)
  from a b c show ?thesis
    unfolding refl_def clouds_def out_def Let_def by blast
qed

lemmas collection_defs =
  get_s2_sr_cld_col_def get_collection_def filter_collection_def filterDate_def filterBounds_def
  example_catalog_def example_x1_def example_x2_def example_cloud_image_def example_props_def
  get_prop_def CLOUD_FILTER_def

theorem get_s2_sr_cld_col_inner_join_witness:
  "map img_index
     (filter_collection (Filter_lte ''CLOUDY_PIXEL_PERCENTAGE'' CLOUD_FILTER)
        (get_collection example_catalog {(0, 0)} 0 5000 ''COPERNICUS/S2'')) = [''x1'', ''x2''] \<and>
   map img_index (get_collection example_catalog {(0, 0)} 0 5000 ''COPERNICUS/S2_CLOUD_PROBABILITY'')
     = [''x1''] \<and>
   map img_index (get_s2_sr_cld_col example_catalog {(0, 0)} 0 5000) = [''x1''] \<and>
   list_all (\<lambda>j. get_prop j ''s2cloudless'' = PImage example_cloud_image)
     (get_s2_sr_cld_col example_catalog {(0, 0)} 0 5000)"
proof -
  let ?refl = "filter_collection (Filter_lte ''CLOUDY_PIXEL_PERCENTAGE'' CLOUD_FILTER)
        (get_collection example_catalog {(0, 0)} 0 5000 ''COPERNICUS/S2'')"
  let ?clouds = "get_collection example_catalog {(0, 0)} 0 5000 ''COPERNICUS/S2_CLOUD_PROBABILITY''"
  let ?out = "get_s2_sr_cld_col example_catalog {(0, 0)} 0 5000"
  have refl: "?refl = [example_x1, example_x2]"
    by (simp add: collection_defs)
  have clouds: "?clouds = [example_cloud_image]"
    by (simp add: collection_defs)
  have ix: "img_index example_x1 = ''x1''" "img_index example_x2 = ''x2''"
    "img_index example_cloud_image = ''x1''"
    by (simp_all add: example_x1_def example_x2_def example_cloud_image_def)
  from get_s2_sr_cld_col_inner_join [of example_catalog "{(0, 0)}" 0 5000]
  have a: "\<forall>j \<in> set ?out. \<exists>p \<in> set ?refl. \<exists>m.
          find (\<lambda>m. img_index m = img_index p) ?clouds = Some m \<and>
          j = set_prop p ''s2cloudless'' (PImage m) \<and>
          get_prop j ''s2cloudless'' = PImage m"
    and c: "map img_index ?out
        = map img_index (filter (\<lambda>p. \<exists>m \<in> set ?clouds. img_index m = img_index p) ?refl)"
    unfolding Let_def by blast+
  from c have c': "map img_index ?out = [''x1'']"
    unfolding refl clouds by (simp add: ix)
  from a have "\<forall>j \<in> set ?out. get_prop j ''s2cloudless'' = PImage example_cloud_image"
    unfolding refl clouds by (auto simp: ix split: if_splits)
  then have "list_all (\<lambda>j. get_prop j ''s2cloudless'' = PImage example_cloud_image) ?out"
    by (simp add: list_all_iff)
  with c' refl clouds ix show ?thesis by simp
qed

end
